theory Spec2Isabelle
  imports Complex_Main "HOL-Library.Sublist"
begin

section \<open>JavaScript values used by the client\<close>

text \<open>
  A string is the UTF-8 text of the JavaScript string. The characters the program itself
  looks for (\<open>=\<close>, \<open>,\<close>, the flag names) are ASCII, and one well-formed text occurs in
  another as a sequence of bytes exactly when it occurs in it as a sequence of UTF-16
  code units.

  A JavaScript number is \<^verbatim>\<open>NaN\<close>, one of the two infinities or a finite double, which
  is a rational number. \<open>Num 0\<close> stands for both zeros.
\<close>

datatype number = NaN | Infinity | NegInfinity | Num rat

text \<open>A thrown value: an \<^verbatim>\<open>Error\<close> instance with its message, or anything else.\<close>

datatype exn = Error string | NonError

text \<open>Truthiness of an optional string: \<^verbatim>\<open>undefined\<close>, \<^verbatim>\<open>null\<close> and \<^verbatim>\<open>""\<close> are falsy.\<close>

fun truthy :: "string option \<Rightarrow> bool" where
  "truthy None = False"
| "truthy (Some s) = (s \<noteq> [])"

text \<open>Truthiness of an optional number: absent, \<^verbatim>\<open>0\<close> and \<^verbatim>\<open>NaN\<close> are falsy.\<close>

fun truthy_num :: "number option \<Rightarrow> bool" where
  "truthy_num None = False"
| "truthy_num (Some NaN) = False"
| "truthy_num (Some Infinity) = True"
| "truthy_num (Some NegInfinity) = True"
| "truthy_num (Some (Num n)) = (n \<noteq> 0)"

text \<open>
  What \<^verbatim>\<open>JSON.stringify\<close> writes for a number: the number itself, or \<^verbatim>\<open>null\<close> (\<open>None\<close>)
  for \<^verbatim>\<open>NaN\<close> and the infinities.
\<close>

fun JSON_number :: "number \<Rightarrow> rat option" where
  "JSON_number (Num x) = Some x"
| "JSON_number NaN = None"
| "JSON_number Infinity = None"
| "JSON_number NegInfinity = None"

text \<open>
  Two functions of the JavaScript runtime are taken as they are, as parameters of the
  program: \<^verbatim>\<open>String.prototype.toLowerCase\<close>, which follows the Unicode case mapping,
  and \<^verbatim>\<open>parseInt(string, radix)\<close>, whose result is a double (ECMA-262 leaves its
  value to the implementation past 20 significant digits); radix \<open>0\<close> stands for an
  omitted radix. Every property below holds for every such pair of functions.
\<close>

record runtime =
  toLowerCase :: "string \<Rightarrow> string"
  parseInt :: "string \<Rightarrow> nat \<Rightarrow> number"

section \<open>types.ts\<close>

text \<open>
  Field names follow the source; where two interfaces share a field name the later
  record carries a short prefix (\<open>cfg_\<close>, \<open>c_\<close>, \<open>err_\<close>, \<open>resp_\<close>, \<open>p_\<close>, \<open>client_\<close>).
\<close>

record TextQLConfig =
  cfg_apiKey :: string
  cfg_baseUrl :: "string option"

datatype Status = STATUS_ACTIVE | STATUS_INACTIVE

datatype ParadigmType = TYPE_SQL

datatype TriggerType = TRIGGER_TYPE_CRON

text \<open>
  The type parameter of \<^verbatim>\<open>UpdatePlaybookRequest\<close> is the type of the connector id: a
  \<open>number\<close> in the program, a JSON number or \<^verbatim>\<open>null\<close> in the text sent.
\<close>

record 'n ParadigmOptions =
  connectorId :: 'n

record 'n UpdatePlaybookRequest =
  prompt :: string
  name :: string
  playbookId :: string
  emailAddresses :: "string list"
  status :: Status
  paradigmType :: ParadigmType
  paradigmOptions :: "'n ParadigmOptions"
  triggerType :: TriggerType
  cronString :: string

text \<open>\<^verbatim>\<open>Playbook\<close> has the fields of \<^verbatim>\<open>UpdatePlaybookRequest\<close> and the server's id.\<close>

record Playbook = "number UpdatePlaybookRequest" +
  pb_id :: string

record PlaybookShell =
  shell_id :: string

record CreatePlaybookRequest =
  playbook :: PlaybookShell

text \<open>The creation response \<^verbatim>\<open>{ playbook: { id: string } }\<close> has the request's shape.\<close>

type_synonym CreatePlaybookResponse = CreatePlaybookRequest

record Connector =
  c_id :: number
  c_name :: string
  c_type :: string
  c_status :: string
  createdAt :: string
  updatedAt :: string

record GetConnectorsResponse =
  connectors :: "Connector list"

record TextQLError =
  message :: string
  code :: "string option"
  err_status :: "number option"

record 'a TextQLResponse =
  success :: bool
  data :: "'a option"
  error :: "TextQLError option"

section \<open>The transport\<close>

datatype http_method = GET | POST | PUT | DELETE

text \<open>
  The body argument of \<^verbatim>\<open>makeRequest\<close> is one of three objects. The body handed to
  \<^verbatim>\<open>fetch\<close> is its \<^verbatim>\<open>JSON.stringify\<close>: the text is represented by the object it
  encodes, in which a connector id that is not finite has become \<^verbatim>\<open>null\<close>.
\<close>

datatype 'n request_body =
    CreateBody CreatePlaybookRequest
  | UpdateBody "'n UpdatePlaybookRequest"
  | EmptyObject

fun JSON_stringify :: "number request_body \<Rightarrow> rat option request_body" where
  "JSON_stringify (CreateBody c) = CreateBody c"
| "JSON_stringify (UpdateBody pb) =
     UpdateBody
       \<lparr>prompt = prompt pb, name = name pb, playbookId = playbookId pb,
        emailAddresses = emailAddresses pb, status = status pb,
        paradigmType = paradigmType pb,
        paradigmOptions = \<lparr>connectorId = JSON_number (connectorId (paradigmOptions pb))\<rparr>,
        triggerType = triggerType pb, cronString = cronString pb\<rparr>"
| "JSON_stringify EmptyObject = EmptyObject"

record http_request =
  url :: string
  http_method :: http_method
  headers :: "(string \<times> string) list"
  body :: "rat option request_body option"

text \<open>
  The text of an error response as \<^verbatim>\<open>JSON.parse\<close> treats it: \<open>Unparsable t\<close> is a
  text \<open>t\<close> on which \<^verbatim>\<open>JSON.parse\<close> throws (the empty text is one), \<open>Parsable e\<close> is
  a text that it accepts, with the value \<open>e\<close> it returns, taken at the declared type
  \<^verbatim>\<open>TextQLError\<close> (the source assigns it unchecked).
\<close>

datatype error_text = Unparsable string | Parsable TextQLError

text \<open>
  The \<^verbatim>\<open>Response\<close> object of \<^verbatim>\<open>fetch\<close>: \<open>resp_text\<close> is what \<^verbatim>\<open>await response.text()\<close>
  gives, \<open>resp_json\<close> what \<^verbatim>\<open>await response.json() as T\<close> gives; either may throw.
\<close>

record 'a Response =
  ok :: bool
  resp_status :: nat
  statusText :: string
  resp_text :: "exn + error_text"
  resp_json :: "exn + 'a"

text \<open>
  \<^verbatim>\<open>fetch\<close> acts on the remote service's state \<open>'w\<close>: it throws or returns a response,
  and leaves the service in a new state.
\<close>

type_synonym ('w, 'a) fetch = "http_request \<Rightarrow> 'w \<Rightarrow> (exn + 'a Response) \<times> 'w"

text \<open>The three endpoints answer at the three response types the client declares.\<close>

record 'w network =
  fetchCreate :: "('w, CreatePlaybookResponse) fetch"
  fetchUpdate :: "('w, Playbook) fetch"
  fetchConnectors :: "('w, GetConnectorsResponse) fetch"

text \<open>What the network has seen: the requests issued so far, oldest first, and the service.\<close>

record 'w net =
  sent :: "http_request list"
  server :: 'w

section \<open>textql-client.ts\<close>

record TextQLClient =
  config :: TextQLConfig
  client_baseUrl :: string

definition new_TextQLClient :: "TextQLConfig \<Rightarrow> TextQLClient" where
  "new_TextQLClient cfg =
     \<lparr>config = cfg,
      client_baseUrl = (if truthy (cfg_baseUrl cfg) then the (cfg_baseUrl cfg)
                        else ''https://app.textql.com'')\<rparr>"

text \<open>Decimal digits of a status code, for the template string of the fallback message.\<close>

fun string_of_nat :: "nat \<Rightarrow> string" where
  "string_of_nat n =
     (if n < 10 then [''0123456789'' ! n]
      else string_of_nat (n div 10) @ [''0123456789'' ! (n mod 10)])"

declare string_of_nat.simps [simp del]

text \<open>The outer \<^verbatim>\<open>catch\<close> clause of \<^verbatim>\<open>makeRequest\<close>.\<close>

definition caught :: "exn \<Rightarrow> 'a TextQLResponse" where
  "caught e =
     \<lparr>success = False, data = None,
      error = Some \<lparr>message = (case e of Error m \<Rightarrow> m | NonError \<Rightarrow> ''Unknown error occurred''),
                    code = None, err_status = None\<rparr>\<rparr>"

definition makeRequest ::
  "('w, 'a) fetch \<Rightarrow> TextQLClient \<Rightarrow> string \<Rightarrow> http_method
     \<Rightarrow> number request_body option \<Rightarrow> 'w net \<Rightarrow> 'a TextQLResponse \<times> 'w net" where
  "makeRequest fetch this endpoint method body_arg s =
     (let request =
            \<lparr>url = client_baseUrl this @ endpoint,
             http_method = method,
             headers = [(''Authorization'', ''ApiKey '' @ cfg_apiKey (config this)),
                        (''Content-Type'', ''application/json'')],
             body = map_option JSON_stringify body_arg\<rparr>;
          (outcome, srv) = fetch request (server s);
          s' = \<lparr>sent = sent s @ [request], server = srv\<rparr>
      in (case outcome of
            Inl e \<Rightarrow> caught e
          | Inr response \<Rightarrow>
              if \<not> ok response then
                (case resp_text response of
                   Inl e \<Rightarrow> caught e
                 | Inr errorText \<Rightarrow>
                     \<lparr>success = False, data = None,
                      error = Some
                        (case errorText of
                           Parsable errorData \<Rightarrow> errorData
                         | Unparsable t \<Rightarrow>
                             \<lparr>message =
                                (if t \<noteq> [] then t
                                 else ''HTTP '' @ string_of_nat (resp_status response) @ '': ''
                                        @ statusText response),
                              code = None,
                              err_status = Some (Num (of_nat (resp_status response)))\<rparr>)\<rparr>)
              else
                (case resp_json response of
                   Inl e \<Rightarrow> caught e
                 | Inr d \<Rightarrow> \<lparr>success = True, data = Some d, error = None\<rparr>),
          s'))"

definition createPlaybook ::
  "'w network \<Rightarrow> TextQLClient \<Rightarrow> string \<Rightarrow> 'w net \<Rightarrow> CreatePlaybookResponse TextQLResponse \<times> 'w net" where
  "createPlaybook nw this pid s =
     (let request = \<lparr>playbook = \<lparr>shell_id = pid\<rparr>\<rparr>
      in makeRequest (fetchCreate nw) this
           ''/rpc/public/textql.rpc.public.playbook.PlaybookService/CreatePlaybook''
           POST (Some (CreateBody request)) s)"

definition updatePlaybook ::
  "'w network \<Rightarrow> TextQLClient \<Rightarrow> number UpdatePlaybookRequest \<Rightarrow> 'w net
     \<Rightarrow> Playbook TextQLResponse \<times> 'w net" where
  "updatePlaybook nw this pb s =
     makeRequest (fetchUpdate nw) this
       ''/rpc/public/textql.rpc.public.playbook.PlaybookService/UpdatePlaybook''
       POST (Some (UpdateBody pb)) s"

definition getConnectors ::
  "'w network \<Rightarrow> TextQLClient \<Rightarrow> 'w net \<Rightarrow> GetConnectorsResponse TextQLResponse \<times> 'w net" where
  "getConnectors nw this s =
     makeRequest (fetchConnectors nw) this
       ''/rpc/public/textql.rpc.public.connector.ConnectorService/GetConnectors''
       POST (Some EmptyObject) s"

text \<open>The parameter object of \<^verbatim>\<open>createCompletePlaybook\<close>; \<open>None\<close> is an omitted field.\<close>

record CompleteParams =
  p_playbookId :: string
  p_prompt :: string
  p_name :: string
  p_emailAddresses :: "string list"
  p_connectorId :: number
  p_cronString :: "string option"
  p_status :: "Status option"

definition createCompletePlaybook ::
  "'w network \<Rightarrow> TextQLClient \<Rightarrow> CompleteParams \<Rightarrow> 'w net \<Rightarrow> Playbook TextQLResponse \<times> 'w net" where
  "createCompletePlaybook nw this params s =
     (let cron = (case p_cronString params of None \<Rightarrow> ''0 13 * * *'' | Some c \<Rightarrow> c);
          st = (case p_status params of None \<Rightarrow> STATUS_ACTIVE | Some x \<Rightarrow> x);
          (createResult, s1) = createPlaybook nw this (p_playbookId params) s
      in if \<not> success createResult then
           (\<lparr>success = False, data = None, error = error createResult\<rparr>, s1)
         else
           (let updateRequest =
                  \<lparr>prompt = p_prompt params,
                   name = p_name params,
                   playbookId = p_playbookId params,
                   emailAddresses = p_emailAddresses params,
                   status = st,
                   paradigmType = TYPE_SQL,
                   paradigmOptions = \<lparr>connectorId = p_connectorId params\<rparr>,
                   triggerType = TRIGGER_TYPE_CRON,
                   cronString = cron\<rparr>
            in updatePlaybook nw this updateRequest s1))"


text \<open>\<^verbatim>\<open>hay.includes(needle)\<close>: a search for \<open>needle\<close> at every position of \<open>hay\<close>.\<close>

fun str_includes :: "string \<Rightarrow> string \<Rightarrow> bool" where
  "str_includes [] needle = (needle = [])"
| "str_includes (h # hs) needle = (prefix needle (h # hs) \<or> str_includes hs needle)"

text \<open>
  \<^verbatim>\<open>listConnectors\<close> and \<^verbatim>\<open>findConnectorByName\<close> may throw: \<open>Inl\<close> is the thrown
  value. In \<^verbatim>\<open>findConnectorByName\<close>, \<open>None\<close> is \<^verbatim>\<open>null\<close>.
\<close>

definition listConnectors ::
  "'w network \<Rightarrow> TextQLClient \<Rightarrow> 'w net \<Rightarrow> (exn + Connector list) \<times> 'w net" where
  "listConnectors nw this s =
     (let (result, s') = getConnectors nw this s;
          thrown = Inl (Error (case error result of
                                 None \<Rightarrow> ''Failed to fetch connectors''
                               | Some e \<Rightarrow> if message e \<noteq> [] then message e
                                           else ''Failed to fetch connectors''))
      in if \<not> success result then (thrown, s')
         else (case data result of
                 None \<Rightarrow> (thrown, s')
               | Some d \<Rightarrow> (Inr (connectors d), s')))"

definition findConnectorByName ::
  "runtime \<Rightarrow> 'w network \<Rightarrow> TextQLClient \<Rightarrow> string \<Rightarrow> 'w net
     \<Rightarrow> (exn + Connector option) \<times> 'w net" where
  "findConnectorByName rt nw this nm s =
     (case listConnectors nw this s of
        (Inl e, s') \<Rightarrow> (Inl e, s')
      | (Inr cs, s') \<Rightarrow>
          (Inr (find (\<lambda>connector.
                        str_includes (toLowerCase rt (c_name connector)) (toLowerCase rt nm)) cs),
           s'))"

section \<open>config.ts\<close>

record TextQLConfigFile =
  apiKey :: "string option"
  baseUrl :: "string option"
  defaultConnectorId :: "number option"
  defaultCronString :: "string option"

text \<open>
  The file at the configuration path: absent, unreadable (reading it or \<^verbatim>\<open>JSON.parse\<close>
  throws), or holding a settings record of the declared type.
\<close>

datatype config_file = Missing | Corrupt | Stored TextQLConfigFile

text \<open>Every line the program prints, one constructor for each \<^verbatim>\<open>console\<close> call.\<close>

datatype console_msg =
    Warn_LoadFailed
  | Err_NoApiKey
  | Err_UnknownCommand "string option"
  | Log_Help
  | Err_ProvideApiKey
  | Log_ApiKeySaved
  | Err_ProvideConnectorId
  | Err_InvalidConnectorId
  | Log_ConnectorIdSet number
  | Err_ProvideCron
  | Log_CronSet string
  | Log_CurrentConfig
  | Log_Config TextQLConfigFile
  | Err_UnknownConfigCommand "string option"
  | Log_AvailableConfigCommands
  | Log_NoConnectors
  | Log_AvailableConnectors
  | Log_Connector Connector
  | Err_FetchConnectors exn
  | Err_MissingParams
  | Log_CreateUsage
  | Err_NoConnectorId
  | Log_Created
  | Log_Details
  | Err_CreateFailed "string option"
  | Err_IdRequired
  | Log_UpdateUsage
  | Log_Updated
  | Log_UpdatedDetails
  | Log_Playbook "Playbook option"
  | Err_UpdateFailed "string option"
  | Err_Unexpected exn

text \<open>
  What a process run can see and change: the configuration file, whether writing it
  fails (\<open>Some m\<close>: \<^verbatim>\<open>mkdirSync\<close> or \<^verbatim>\<open>writeFileSync\<close> throws, \<open>m\<close> the text of the
  thrown value), the environment variable, the console and the network.
\<close>

record 'w world =
  configFile :: config_file
  write_failure :: "string option"
  TEXTQL_API_KEY :: "string option"
  console :: "console_msg list"
  net :: "'w net"

definition say :: "console_msg \<Rightarrow> 'w world \<Rightarrow> 'w world" where
  "say m w = w\<lparr>console := console w @ [m]\<rparr>"

definition empty_config :: TextQLConfigFile where
  "empty_config =
     \<lparr>apiKey = None, baseUrl = None, defaultConnectorId = None, defaultCronString = None\<rparr>"

definition loadConfig :: "'w world \<Rightarrow> TextQLConfigFile \<times> 'w world" where
  "loadConfig w =
     (case configFile w of
        Missing \<Rightarrow> (empty_config, w)
      | Stored c \<Rightarrow> (c, w)
      | Corrupt \<Rightarrow> (empty_config, say Warn_LoadFailed w))"

text \<open>
  What \<^verbatim>\<open>JSON.parse\<close> reads back from \<^verbatim>\<open>JSON.stringify(config)\<close>: \<^verbatim>\<open>NaN\<close> and
  the infinities are written as \<^verbatim>\<open>null\<close>, every other value as itself.
\<close>

definition stringified :: "TextQLConfigFile \<Rightarrow> TextQLConfigFile" where
  "stringified c =
     c\<lparr>defaultConnectorId :=
         (case defaultConnectorId c of
            None \<Rightarrow> None
          | Some n \<Rightarrow> map_option Num (JSON_number n))\<rparr>"

definition saveConfig :: "TextQLConfigFile \<Rightarrow> 'w world \<Rightarrow> (exn + unit) \<times> 'w world" where
  "saveConfig c w =
     (case write_failure w of
        None \<Rightarrow> (Inr (), w\<lparr>configFile := Stored (stringified c)\<rparr>)
      | Some m \<Rightarrow> (Inl (Error (''Failed to save config: '' @ m)), w))"

definition getApiKey :: "'w world \<Rightarrow> string option \<times> 'w world" where
  "getApiKey w =
     (let (c, w') = loadConfig w
      in (if truthy (apiKey c) then apiKey c
          else if truthy (TEXTQL_API_KEY w') then TEXTQL_API_KEY w'
          else None, w'))"

definition setApiKey :: "string \<Rightarrow> 'w world \<Rightarrow> (exn + unit) \<times> 'w world" where
  "setApiKey k w = (let (c, w') = loadConfig w in saveConfig (c\<lparr>apiKey := Some k\<rparr>) w')"

definition getBaseUrl :: "'w world \<Rightarrow> string \<times> 'w world" where
  "getBaseUrl w =
     (let (c, w') = loadConfig w
      in (case baseUrl c of
            None \<Rightarrow> ''https://app.textql.com''
          | Some b \<Rightarrow> if b \<noteq> [] then b else ''https://app.textql.com'', w'))"

definition getDefaultConnectorId :: "'w world \<Rightarrow> number option \<times> 'w world" where
  "getDefaultConnectorId w =
     (let (c, w') = loadConfig w
      in (if truthy_num (defaultConnectorId c) then defaultConnectorId c else None, w'))"

definition setDefaultConnectorId :: "number \<Rightarrow> 'w world \<Rightarrow> (exn + unit) \<times> 'w world" where
  "setDefaultConnectorId n w =
     (let (c, w') = loadConfig w in saveConfig (c\<lparr>defaultConnectorId := Some n\<rparr>) w')"

definition getDefaultCronString :: "'w world \<Rightarrow> string \<times> 'w world" where
  "getDefaultCronString w =
     (let (c, w') = loadConfig w
      in (case defaultCronString c of
            None \<Rightarrow> ''0 13 * * *''
          | Some x \<Rightarrow> if x \<noteq> [] then x else ''0 13 * * *'', w'))"

definition setDefaultCronString :: "string \<Rightarrow> 'w world \<Rightarrow> (exn + unit) \<times> 'w world" where
  "setDefaultCronString x w =
     (let (c, w') = loadConfig w in saveConfig (c\<lparr>defaultCronString := Some x\<rparr>) w')"

section \<open>cli.ts\<close>

text \<open>
  How a piece of the command-line program ends: it returns, it ends the process with
  \<^verbatim>\<open>process.exit(code)\<close>, or it throws.
\<close>

datatype 'a outcome = Returned 'a | Exited nat | Threw exn

text \<open>\<^verbatim>\<open>str.split(c)\<close> for a separator of one character.\<close>

fun split_on :: "char \<Rightarrow> string \<Rightarrow> string list" where
  "split_on c [] = [[]]"
| "split_on c (x # xs) =
     (if x = c then [] # split_on c xs
      else (case split_on c xs of
              [] \<Rightarrow> [[x]]
            | p # ps \<Rightarrow> (x # p) # ps))"

text \<open>\<^verbatim>\<open>xs[i]\<close>, which is \<^verbatim>\<open>undefined\<close> out of range.\<close>

definition nth_opt :: "'a list \<Rightarrow> nat \<Rightarrow> 'a option" where
  "nth_opt xs i = (if i < length xs then Some (xs ! i) else None)"

text \<open>The expression \<^verbatim>\<open>args.find(arg => arg.startsWith(key))?.split('=')[1]\<close>.\<close>

definition argValue :: "string \<Rightarrow> string list \<Rightarrow> string option" where
  "argValue key args =
     (case find (prefix key) args of
        None \<Rightarrow> None
      | Some arg \<Rightarrow> nth_opt (split_on CHR ''='' arg) 1)"

text \<open>
  The field \<^verbatim>\<open>this.client\<close> of the CLI object is passed to each method as
  \<open>this_client\<close>; \<^verbatim>\<open>initializeClient\<close> returns the client it stores there.
\<close>

definition initializeClient :: "'w world \<Rightarrow> TextQLClient outcome \<times> 'w world" where
  "initializeClient w =
     (let (k, w1) = getApiKey w
      in if \<not> truthy k then (Exited 1, say Err_NoApiKey w1)
         else (let (b, w2) = getBaseUrl w1
               in (Returned (new_TextQLClient \<lparr>cfg_apiKey = the k, cfg_baseUrl = Some b\<rparr>), w2)))"

definition ensureClient :: "TextQLClient option \<Rightarrow> 'w world \<Rightarrow> TextQLClient outcome \<times> 'w world" where
  "ensureClient this_client w =
     (case this_client of
        None \<Rightarrow> initializeClient w
      | Some c \<Rightarrow> (Returned c, w))"

definition handleConfig :: "runtime \<Rightarrow> string list \<Rightarrow> 'w world \<Rightarrow> unit outcome \<times> 'w world" where
  "handleConfig rt args w =
     (let subcommand = nth_opt args 0
      in if subcommand = Some ''set-api-key'' then
           (let k = nth_opt args 1
            in if \<not> truthy k then (Exited 1, say Err_ProvideApiKey w)
               else (case setApiKey (the k) w of
                       (Inl e, w1) \<Rightarrow> (Threw e, w1)
                     | (Inr u, w1) \<Rightarrow> (Returned (), say Log_ApiKeySaved w1)))
         else if subcommand = Some ''set-connector'' then
           (let idArg = nth_opt args 1
            in if \<not> truthy idArg then (Exited 1, say Err_ProvideConnectorId w)
               else (let cid = parseInt rt (the idArg) 10
                     in if cid = NaN then (Exited 1, say Err_InvalidConnectorId w)
                        else (case setDefaultConnectorId cid w of
                                (Inl e, w1) \<Rightarrow> (Threw e, w1)
                              | (Inr u, w1) \<Rightarrow> (Returned (), say (Log_ConnectorIdSet cid) w1))))
         else if subcommand = Some ''set-cron'' then
           (let cron = nth_opt args 1
            in if \<not> truthy cron then (Exited 1, say Err_ProvideCron w)
               else (case setDefaultCronString (the cron) w of
                       (Inl e, w1) \<Rightarrow> (Threw e, w1)
                     | (Inr u, w1) \<Rightarrow> (Returned (), say (Log_CronSet (the cron)) w1)))
         else if subcommand = Some ''show'' then
           (let (c, w1) = loadConfig w
            in (Returned (), say (Log_Config c) (say Log_CurrentConfig w1)))
         else
           (Exited 1, say Log_AvailableConfigCommands (say (Err_UnknownConfigCommand subcommand) w)))"

definition handleConnectors ::
  "'w network \<Rightarrow> TextQLClient option \<Rightarrow> string list \<Rightarrow> 'w world \<Rightarrow> unit outcome \<times> 'w world" where
  "handleConnectors nw this_client args w =
     (case ensureClient this_client w of
        (Exited c, w1) \<Rightarrow> (Exited c, w1)
      | (Threw e, w1) \<Rightarrow> (Threw e, w1)
      | (Returned client, w1) \<Rightarrow>
          (case listConnectors nw client (net w1) of
             (Inl e, n') \<Rightarrow> (Exited 1, say (Err_FetchConnectors e) (w1\<lparr>net := n'\<rparr>))
           | (Inr cs, n') \<Rightarrow>
               if length cs = 0 then (Returned (), say Log_NoConnectors (w1\<lparr>net := n'\<rparr>))
               else (Returned (),
                     foldl (\<lambda>v connector. say (Log_Connector connector) v)
                       (say Log_AvailableConnectors (w1\<lparr>net := n'\<rparr>)) cs)))"

definition handleCreate ::
  "runtime \<Rightarrow> 'w network \<Rightarrow> TextQLClient option \<Rightarrow> string list \<Rightarrow> 'w world
     \<Rightarrow> unit outcome \<times> 'w world" where
  "handleCreate rt nw this_client args w =
     (case ensureClient this_client w of
        (Exited c, w1) \<Rightarrow> (Exited c, w1)
      | (Threw e, w1) \<Rightarrow> (Threw e, w1)
      | (Returned client, w1) \<Rightarrow>
          (let pid = argValue ''--id='' args;
               prompt_arg = argValue ''--prompt='' args;
               name_arg = argValue ''--name='' args;
               emails = map_option (split_on CHR '','') (argValue ''--emails='' args);
               connector_arg = argValue ''--connector='' args;
               cron_arg = argValue ''--cron='' args
           in if \<not> truthy pid \<or> \<not> truthy prompt_arg \<or> \<not> truthy name_arg \<or> emails = None then
                (Exited 1, say Log_CreateUsage (say Err_MissingParams w1))
              else
                (let (connectorIdNum, w2) =
                       (if truthy connector_arg then (Some (parseInt rt (the connector_arg) 0), w1)
                        else getDefaultConnectorId w1)
                 in if \<not> truthy_num connectorIdNum then (Exited 1, say Err_NoConnectorId w2)
                    else
                      (let (cron, w3) =
                             (if truthy cron_arg then (the cron_arg, w2)
                              else getDefaultCronString w2);
                           (result, n') =
                             createCompletePlaybook nw client
                               \<lparr>p_playbookId = the pid,
                                p_prompt = the prompt_arg,
                                p_name = the name_arg,
                                p_emailAddresses = the emails,
                                p_connectorId = the connectorIdNum,
                                p_cronString = Some cron,
                                p_status = None\<rparr> (net w3);
                           w4 = w3\<lparr>net := n'\<rparr>
                       in if success result then
                            (Returned (),
                             say (Log_Playbook (data result)) (say Log_Details (say Log_Created w4)))
                          else
                            (Exited 1,
                             say (Err_CreateFailed (map_option message (error result))) w4)))))"

definition handleUpdate ::
  "runtime \<Rightarrow> 'w network \<Rightarrow> TextQLClient option \<Rightarrow> string list \<Rightarrow> 'w world
     \<Rightarrow> unit outcome \<times> 'w world" where
  "handleUpdate rt nw this_client args w =
     (case ensureClient this_client w of
        (Exited c, w1) \<Rightarrow> (Exited c, w1)
      | (Threw e, w1) \<Rightarrow> (Threw e, w1)
      | (Returned client, w1) \<Rightarrow>
          (let pid = argValue ''--id='' args;
               prompt_arg = argValue ''--prompt='' args;
               name_arg = argValue ''--name='' args;
               emails = map_option (split_on CHR '','') (argValue ''--emails='' args);
               connector_arg = argValue ''--connector='' args;
               cron_arg = argValue ''--cron='' args;
               statusArg = argValue ''--status='' args;
               status_arg = (if statusArg = Some ''STATUS_ACTIVE'' then Some STATUS_ACTIVE
                             else if statusArg = Some ''STATUS_INACTIVE'' then Some STATUS_INACTIVE
                             else None)
           in if \<not> truthy pid then
                (Exited 1, say Log_UpdateUsage (say Err_IdRequired w1))
              else
                (let (connectorIdNum, w2) =
                       (if truthy connector_arg then (Some (parseInt rt (the connector_arg) 0), w1)
                        else getDefaultConnectorId w1)
                 in if \<not> truthy_num connectorIdNum then (Exited 1, say Err_NoConnectorId w2)
                    else
                      (let (cron, w3) =
                             (if truthy cron_arg then (the cron_arg, w2)
                              else getDefaultCronString w2);
                           updateRequest =
                             \<lparr>prompt = (if truthy prompt_arg then the prompt_arg else ''SELECT 1;''),
                              name = (if truthy name_arg then the name_arg else ''Updated Playbook''),
                              playbookId = the pid,
                              emailAddresses =
                                (case emails of None \<Rightarrow> [''admin@example.com''] | Some es \<Rightarrow> es),
                              status = (case status_arg of None \<Rightarrow> STATUS_ACTIVE | Some x \<Rightarrow> x),
                              paradigmType = TYPE_SQL,
                              paradigmOptions = \<lparr>connectorId = the connectorIdNum\<rparr>,
                              triggerType = TRIGGER_TYPE_CRON,
                              cronString = cron\<rparr>;
                           (result, n') = updatePlaybook nw client updateRequest (net w3);
                           w4 = w3\<lparr>net := n'\<rparr>
                       in if success result then
                            (Returned (),
                             say (Log_Playbook (data result))
                               (say Log_UpdatedDetails (say Log_Updated w4)))
                          else
                            (Exited 1,
                             say (Err_UpdateFailed (map_option message (error result))) w4)))))"

definition run ::
  "runtime \<Rightarrow> 'w network \<Rightarrow> TextQLClient option \<Rightarrow> string list \<Rightarrow> 'w world
     \<Rightarrow> unit outcome \<times> 'w world" where
  "run rt nw this_client args w =
     (let command = nth_opt args 0
      in if command = Some ''config'' then handleConfig rt (drop 1 args) w
         else if command = Some ''connectors'' then handleConnectors nw this_client (drop 1 args) w
         else if command = Some ''create'' then handleCreate rt nw this_client (drop 1 args) w
         else if command = Some ''update'' then handleUpdate rt nw this_client (drop 1 args) w
         else if command = Some ''help'' \<or> command = Some ''--help'' \<or> command = Some ''-h'' then
           (Returned (), say Log_Help w)
         else (Exited 1, say Log_Help (say (Err_UnknownCommand command) w)))"

text \<open>
  \<^verbatim>\<open>main\<close> with its \<^verbatim>\<open>catch\<close> handler: a fresh CLI object (no client yet) runs the
  arguments; the result is the exit status of the process.
\<close>

definition main :: "runtime \<Rightarrow> 'w network \<Rightarrow> string list \<Rightarrow> 'w world \<Rightarrow> nat \<times> 'w world" where
  "main rt nw args w =
     (case run rt nw None args w of
        (Returned u, w') \<Rightarrow> (0, w')
      | (Exited c, w') \<Rightarrow> (c, w')
      | (Threw e, w') \<Rightarrow> (1, say (Err_Unexpected e) w'))"

section \<open>Vocabulary of the properties\<close>

text \<open>The request that \<^verbatim>\<open>makeRequest\<close> puts on the wire for an endpoint and a body.\<close>

definition wire_request :: "TextQLClient \<Rightarrow> string \<Rightarrow> number request_body \<Rightarrow> http_request" where
  "wire_request this endpoint b =
     \<lparr>url = client_baseUrl this @ endpoint, http_method = POST,
      headers = [(''Authorization'', ''ApiKey '' @ cfg_apiKey (config this)),
                 (''Content-Type'', ''application/json'')],
      body = Some (JSON_stringify b)\<rparr>"

definition create_request :: "TextQLClient \<Rightarrow> string \<Rightarrow> http_request" where
  "create_request this pid =
     wire_request this ''/rpc/public/textql.rpc.public.playbook.PlaybookService/CreatePlaybook''
       (CreateBody \<lparr>playbook = \<lparr>shell_id = pid\<rparr>\<rparr>)"

definition update_request :: "TextQLClient \<Rightarrow> number UpdatePlaybookRequest \<Rightarrow> http_request" where
  "update_request this pb =
     wire_request this ''/rpc/public/textql.rpc.public.playbook.PlaybookService/UpdatePlaybook''
       (UpdateBody pb)"

text \<open>
  The update payload as the specification describes it: the fields of \<open>params\<close>, the
  connector id wrapped in paradigmOptions, the two fixed tags and the two defaults.
\<close>

definition spec_payload :: "CompleteParams \<Rightarrow> number UpdatePlaybookRequest" where
  "spec_payload params =
     \<lparr>prompt = p_prompt params, name = p_name params, playbookId = p_playbookId params,
      emailAddresses = p_emailAddresses params,
      status = (case p_status params of None \<Rightarrow> STATUS_ACTIVE | Some x \<Rightarrow> x),
      paradigmType = TYPE_SQL,
      paradigmOptions = \<lparr>connectorId = p_connectorId params\<rparr>,
      triggerType = TRIGGER_TYPE_CRON,
      cronString = (case p_cronString params of None \<Rightarrow> ''0 13 * * *'' | Some c \<Rightarrow> c)\<rparr>"

text \<open>
  The manual two-step of the specification: a creation request, then an update request
  with the field values the composite would send, whatever the creation answered.
\<close>

definition manual_create_then_update ::
  "'w network \<Rightarrow> TextQLClient \<Rightarrow> CompleteParams \<Rightarrow> 'w net \<Rightarrow> Playbook TextQLResponse \<times> 'w net" where
  "manual_create_then_update nw this params s =
     (let (createResult, s1) = createPlaybook nw this (p_playbookId params) s
      in updatePlaybook nw this (spec_payload params) s1)"

text \<open>
  Case-insensitive containment as the specification words it: \<open>needle\<close> is a
  case-insensitive substring of \<open>hay\<close> when, both being folded to lower case by the
  case mapping \<open>lower\<close>, the folded \<open>needle\<close> is a contiguous part of the folded \<open>hay\<close>.
\<close>

definition ci_substring :: "(string \<Rightarrow> string) \<Rightarrow> string \<Rightarrow> string \<Rightarrow> bool" where
  "ci_substring lower needle hay = (\<exists>ps ss. lower hay = ps @ lower needle @ ss)"

text \<open>
  On ASCII text the same notion letter by letter: two characters are the same letter
  when they are equal or are the upper-case and lower-case form of one ASCII letter.
\<close>

definition same_letter :: "char \<Rightarrow> char \<Rightarrow> bool" where
  "same_letter a b =
     (a = b \<or>
      (65 \<le> (of_char a :: nat) \<and> (of_char a :: nat) \<le> 90 \<and> (of_char b :: nat) = of_char a + 32) \<or>
      (65 \<le> (of_char b :: nat) \<and> (of_char b :: nat) \<le> 90 \<and> (of_char a :: nat) = of_char b + 32))"

definition ascii_ci_substring :: "string \<Rightarrow> string \<Rightarrow> bool" where
  "ascii_ci_substring needle hay =
     (\<exists>ps mid ss. hay = ps @ mid @ ss \<and> list_all2 same_letter mid needle)"

text \<open>
  The failure contract of a request, relating what \<^verbatim>\<open>fetch\<close> did to the Result
  returned: an exception (of \<^verbatim>\<open>fetch\<close>, of reading the text of a non-success response,
  or of reading the JSON of a success response) gives the exception's message, or the
  generic message when the thrown value is not an \<^verbatim>\<open>Error\<close>; a non-success response
  whose text is not JSON gives a non-empty message, the text itself or the status line
  when the text is empty; a non-success response whose text is JSON gives the parsed
  value as it is. The only Result with \<open>success: true\<close> is that of a success response
  whose JSON was read, and it carries that JSON as its data.
\<close>

definition failure_contract :: "(exn + 'a Response) \<Rightarrow> 'a TextQLResponse \<Rightarrow> bool" where
  "failure_contract outcome r =
     ((\<forall>e. outcome = Inl e \<or>
           (\<exists>resp. outcome = Inr resp \<and> \<not> ok resp \<and> resp_text resp = Inl e) \<or>
           (\<exists>resp. outcome = Inr resp \<and> ok resp \<and> resp_json resp = Inl e)
          \<longrightarrow> r = \<lparr>success = False, data = None,
                    error = Some \<lparr>message = (case e of Error m \<Rightarrow> m
                                               | NonError \<Rightarrow> ''Unknown error occurred''),
                                  code = None, err_status = None\<rparr>\<rparr>) \<and>
      (\<forall>resp d. outcome = Inr resp \<and> ok resp \<and> resp_json resp = Inr d
          \<longrightarrow> r = \<lparr>success = True, data = Some d, error = None\<rparr>) \<and>
      (success r \<longrightarrow> (\<exists>resp d. outcome = Inr resp \<and> ok resp \<and> resp_json resp = Inr d)) \<and>
      (\<forall>resp t. outcome = Inr resp \<and> \<not> ok resp \<and> resp_text resp = Inr (Unparsable t)
          \<longrightarrow> \<not> success r \<and> data r = None \<and>
              (\<exists>e. error r = Some e \<and> message e \<noteq> [] \<and>
                   message e = (if t \<noteq> [] then t
                                else ''HTTP '' @ string_of_nat (resp_status resp) @ '': ''
                                       @ statusText resp))) \<and>
      (\<forall>resp e. outcome = Inr resp \<and> \<not> ok resp \<and> resp_text resp = Inr (Parsable e)
          \<longrightarrow> r = \<lparr>success = False, data = None, error = Some e\<rparr>))"

text \<open>
  The connector id a create or update invocation resolves: the \<^verbatim>\<open>--connector\<close> flag
  when it is given and not empty, read by \<^verbatim>\<open>parseInt\<close>, else the persisted default.
\<close>

definition resolved_connector :: "runtime \<Rightarrow> string list \<Rightarrow> TextQLConfigFile \<Rightarrow> number option" where
  "resolved_connector rt args settings =
     (if truthy (argValue ''--connector='' args)
      then Some (parseInt rt (the (argValue ''--connector='' args)) 0)
      else defaultConnectorId settings)"

text \<open>A flag's value when the flag is given and not empty, else the fallback.\<close>

definition flag_or :: "string \<Rightarrow> string list \<Rightarrow> string \<Rightarrow> string" where
  "flag_or key args fallback =
     (case argValue key args of
        None \<Rightarrow> fallback
      | Some v \<Rightarrow> if v = [] then fallback else v)"

text \<open>
  The payload of an update invocation as the specification describes it: each field from
  its flag, else from the persisted default where there is one, else from the hardcoded
  default.
\<close>

definition spec_update_payload ::
  "runtime \<Rightarrow> string list \<Rightarrow> TextQLConfigFile \<Rightarrow> number UpdatePlaybookRequest" where
  "spec_update_payload rt args settings =
     \<lparr>prompt = flag_or ''--prompt='' args ''SELECT 1;'',
      name = flag_or ''--name='' args ''Updated Playbook'',
      playbookId = flag_or ''--id='' args [],
      emailAddresses =
        (case argValue ''--emails='' args of
           None \<Rightarrow> [''admin@example.com'']
         | Some v \<Rightarrow> split_on CHR '','' v),
      status =
        (if argValue ''--status='' args = Some ''STATUS_INACTIVE'' then STATUS_INACTIVE
         else STATUS_ACTIVE),
      paradigmType = TYPE_SQL,
      paradigmOptions =
        \<lparr>connectorId = (case resolved_connector rt args settings of None \<Rightarrow> NaN | Some n \<Rightarrow> n)\<rparr>,
      triggerType = TRIGGER_TYPE_CRON,
      cronString =
        flag_or ''--cron='' args
          (case defaultCronString settings of
             None \<Rightarrow> ''0 13 * * *''
           | Some x \<Rightarrow> if x \<noteq> [] then x else ''0 13 * * *'')\<rparr>"

text \<open>The settings that \<^verbatim>\<open>loadConfig\<close> reads from a file.\<close>

definition settings_of :: "config_file \<Rightarrow> TextQLConfigFile" where
  "settings_of f = (case f of Stored c \<Rightarrow> c | Missing \<Rightarrow> empty_config | Corrupt \<Rightarrow> empty_config)"

section \<open>Example inputs\<close>

text \<open>
  A runtime for the examples. Its \<^verbatim>\<open>toLowerCase\<close> maps the letters A to Z to a to z
  (code plus 32, which sets the bit of value 32) and keeps every other character; its
  \<^verbatim>\<open>parseInt\<close> follows the steps of ECMA-262 with the six ASCII white-space characters
  and exact integers. On ASCII text, and on numbers below \<open>2^53\<close>, they compute what the
  JavaScript functions compute.
\<close>

definition lower_char :: "char \<Rightarrow> char" where
  "lower_char c =
     (if 65 \<le> (of_char c :: nat) \<and> (of_char c :: nat) \<le> 90
      then (case c of Char b0 b1 b2 b3 b4 b5 b6 b7 \<Rightarrow> Char b0 b1 b2 b3 b4 True b6 b7)
      else c)"

definition ascii_toLowerCase :: "string \<Rightarrow> string" where
  "ascii_toLowerCase str = map lower_char str"

definition isWhiteSpace :: "char \<Rightarrow> bool" where
  "isWhiteSpace c = ((of_char c :: nat) \<in> {9, 10, 11, 12, 13, 32})"

definition digit_value :: "char \<Rightarrow> nat" where
  "digit_value c =
     (let n = (of_char c :: nat)
      in if 48 \<le> n \<and> n \<le> 57 then n - 48
         else if 97 \<le> n \<and> n \<le> 122 then n - 87
         else if 65 \<le> n \<and> n \<le> 90 then n - 55
         else 36)"

definition ascii_parseInt :: "string \<Rightarrow> nat \<Rightarrow> number" where
  "ascii_parseInt str radix =
     (let s0 = dropWhile isWhiteSpace str;
          sign = (if s0 \<noteq> [] \<and> hd s0 = CHR ''-'' then - 1 else 1 :: int);
          s1 = (if s0 \<noteq> [] \<and> (hd s0 = CHR ''+'' \<or> hd s0 = CHR ''-'') then tl s0 else s0);
          stripPrefix = (radix = 0 \<or> radix = 16);
          hex = (stripPrefix \<and> (take 2 s1 = ''0x'' \<or> take 2 s1 = ''0X''));
          r = (if hex then 16 else if radix = 0 then 10 else radix);
          s2 = (if hex then drop 2 s1 else s1);
          z = takeWhile (\<lambda>c. digit_value c < r) s2
      in if radix \<noteq> 0 \<and> (radix < 2 \<or> 36 < radix) then NaN
         else if z = [] then NaN
         else Num (of_int (sign * int (foldl (\<lambda>a c. a * r + digit_value c) 0 z))))"

definition demo_runtime :: runtime where
  "demo_runtime = \<lparr>toLowerCase = ascii_toLowerCase, parseInt = ascii_parseInt\<rparr>"

text \<open>
  Concrete transports on which the theorems below are instantiated. The service state
  is the number of requests it has answered.
\<close>

definition demo_client :: TextQLClient where
  "demo_client = new_TextQLClient \<lparr>cfg_apiKey = ''key'', cfg_baseUrl = None\<rparr>"

definition demo_params :: CompleteParams where
  "demo_params =
     \<lparr>p_playbookId = ''pb-1'', p_prompt = ''SELECT 1;'', p_name = ''Report'',
      p_emailAddresses = [''a@example.com''], p_connectorId = Num 213,
      p_cronString = None, p_status = None\<rparr>"

text \<open>Every connection is refused: \<^verbatim>\<open>fetch\<close> throws.\<close>

definition refusing_network :: "nat network" where
  "refusing_network =
     \<lparr>fetchCreate = (\<lambda>r w. (Inl (Error ''connection refused''), w)),
      fetchUpdate = (\<lambda>r w. (Inl (Error ''connection refused''), w)),
      fetchConnectors = (\<lambda>r w. (Inl (Error ''connection refused''), w))\<rparr>"

definition demo_connectors :: "Connector list" where
  "demo_connectors =
     [\<lparr>c_id = Num 1, c_name = ''Postgres-Prod'', c_type = ''postgres'', c_status = ''ok'',
       createdAt = ''2024-01-01'', updatedAt = ''2024-01-02''\<rparr>,
      \<lparr>c_id = Num 2, c_name = ''MySQL'', c_type = ''mysql'', c_status = ''ok'',
       createdAt = ''2024-01-01'', updatedAt = ''2024-01-02''\<rparr>]"

definition demo_playbook :: Playbook where
  "demo_playbook =
     \<lparr>prompt = ''SELECT 1;'', name = ''Report'', playbookId = ''pb-1'',
      emailAddresses = [''a@example.com''], status = STATUS_ACTIVE,
      paradigmType = TYPE_SQL, paradigmOptions = \<lparr>connectorId = Num 213\<rparr>,
      triggerType = TRIGGER_TYPE_CRON, cronString = ''0 13 * * *'', pb_id = ''srv-1''\<rparr>"

text \<open>Every request is answered with status 200 and a well-typed body.\<close>

definition accepting_network :: "nat network" where
  "accepting_network =
     \<lparr>fetchCreate = (\<lambda>r w.
        (Inr \<lparr>ok = True, resp_status = 200, statusText = ''OK'',
              resp_text = Inr (Unparsable []),
              resp_json = Inr \<lparr>playbook = \<lparr>shell_id = ''pb-1''\<rparr>\<rparr>\<rparr>, Suc w)),
      fetchUpdate = (\<lambda>r w.
        (Inr \<lparr>ok = True, resp_status = 200, statusText = ''OK'',
              resp_text = Inr (Unparsable []),
              resp_json = Inr demo_playbook\<rparr>, Suc w)),
      fetchConnectors = (\<lambda>r w.
        (Inr \<lparr>ok = True, resp_status = 200, statusText = ''OK'',
              resp_text = Inr (Unparsable []),
              resp_json = Inr \<lparr>connectors = demo_connectors\<rparr>\<rparr>, Suc w))\<rparr>"

text \<open>
  The service is down: creation is answered 500 with an empty body, update 502 with a
  text that is not JSON, the connector list 503 with a JSON error object.
\<close>

definition failing_network :: "nat network" where
  "failing_network =
     \<lparr>fetchCreate = (\<lambda>r w.
        (Inr \<lparr>ok = False, resp_status = 500, statusText = ''Internal Server Error'',
              resp_text = Inr (Unparsable []),
              resp_json = Inl (Error ''Unexpected end of JSON input'')\<rparr>, Suc w)),
      fetchUpdate = (\<lambda>r w.
        (Inr \<lparr>ok = False, resp_status = 502, statusText = ''Bad Gateway'',
              resp_text = Inr (Unparsable ''<html>Bad Gateway</html>''),
              resp_json = Inl (Error ''Unexpected token <'')\<rparr>, Suc w)),
      fetchConnectors = (\<lambda>r w.
        (Inr \<lparr>ok = False, resp_status = 503, statusText = ''Service Unavailable'',
              resp_text = Inr (Parsable \<lparr>message = ''down'', code = Some ''UNAVAILABLE'',
                                        err_status = Some (Num 503)\<rparr>),
              resp_json = Inr \<lparr>connectors = []\<rparr>\<rparr>, Suc w))\<rparr>"

text \<open>
  Creation is answered 500 with the JSON body \<^verbatim>\<open>{"message": ""}\<close>, a value of the
  declared error type.
\<close>

definition blank_error_network :: "nat network" where
  "blank_error_network =
     failing_network\<lparr>fetchCreate := (\<lambda>r w.
        (Inr \<lparr>ok = False, resp_status = 500, statusText = ''Internal Server Error'',
              resp_text = Inr (Parsable \<lparr>message = [], code = None, err_status = None\<rparr>),
              resp_json = Inr \<lparr>playbook = \<lparr>shell_id = []\<rparr>\<rparr>\<rparr>, Suc w))\<rparr>"

text \<open>Creation is answered 200 with a body that is not JSON: \<^verbatim>\<open>response.json()\<close> throws.\<close>

definition garbled_network :: "nat network" where
  "garbled_network =
     failing_network\<lparr>fetchCreate := (\<lambda>r w.
        (Inr \<lparr>ok = True, resp_status = 200, statusText = ''OK'',
              resp_text = Inr (Unparsable ''<html>OK</html>''),
              resp_json = Inl (Error ''Unexpected token <'')\<rparr>, Suc w))\<rparr>"

definition fresh_net :: "nat net" where
  "fresh_net = \<lparr>sent = [], server = 0\<rparr>"

text \<open>Process states for the command line: a stored key, defaults and an environment key.\<close>

definition demo_world :: "nat world" where
  "demo_world =
     \<lparr>configFile = Stored \<lparr>apiKey = Some ''file-key'', baseUrl = None,
                            defaultConnectorId = Some (Num 213),
                            defaultCronString = Some ''0 9 * * *''\<rparr>,
      write_failure = None, TEXTQL_API_KEY = Some ''env-key'', console = [],
      net = fresh_net\<rparr>"

text \<open>The settings \<^verbatim>\<open>{defaultCronString: "0 9 * * *"}\<close>, the key in the environment.\<close>

definition cron_only_world :: "nat world" where
  "cron_only_world =
     demo_world\<lparr>configFile := Stored \<lparr>apiKey = None, baseUrl = None,
                                       defaultConnectorId = None,
                                       defaultCronString = Some ''0 9 * * *''\<rparr>\<rparr>"

text \<open>No configuration file and no environment variable.\<close>

definition keyless_world :: "nat world" where
  "keyless_world = demo_world\<lparr>configFile := Missing, TEXTQL_API_KEY := None\<rparr>"

text \<open>A persisted default connector id of 0.\<close>

definition zero_default_world :: "nat world" where
  "zero_default_world =
     demo_world\<lparr>configFile := Stored \<lparr>apiKey = Some ''file-key'', baseUrl = None,
                                       defaultConnectorId = Some (Num 0),
                                       defaultCronString = None\<rparr>\<rparr>"

text \<open>
  A runtime whose \<^verbatim>\<open>toLowerCase\<close> also folds the letter U+00C9 (in UTF-8 the bytes
  C3 89) to U+00E9 (C3 A9), as the Unicode case mapping does, and a service with a
  connector whose name starts with that letter.
\<close>

fun latin_toLowerCase :: "string \<Rightarrow> string" where
  "latin_toLowerCase (c # d # cs) =
     (if c = CHR 0xC3 \<and> d = CHR 0x89 then CHR 0xC3 # CHR 0xA9 # latin_toLowerCase cs
      else lower_char c # latin_toLowerCase (d # cs))"
| "latin_toLowerCase [c] = [lower_char c]"
| "latin_toLowerCase [] = []"

definition latin_runtime :: runtime where
  "latin_runtime = demo_runtime\<lparr>toLowerCase := latin_toLowerCase\<rparr>"

definition ecole :: Connector where
  "ecole = \<lparr>c_id = Num 3, c_name = [CHR 0xC3, CHR 0x89] @ ''cole'', c_type = ''postgres'',
             c_status = ''ok'', createdAt = ''2024-01-01'', updatedAt = ''2024-01-02''\<rparr>"

definition french_network :: "nat network" where
  "french_network =
     accepting_network\<lparr>fetchConnectors := (\<lambda>r w.
        (Inr \<lparr>ok = True, resp_status = 200, statusText = ''OK'',
              resp_text = Inr (Unparsable []),
              resp_json = Inr \<lparr>connectors = [hd demo_connectors, ecole]\<rparr>\<rparr>, Suc w))\<rparr>"

text \<open>
  A runtime whose \<^verbatim>\<open>parseInt\<close> answers \<^verbatim>\<open>Infinity\<close>, as JavaScript does for a digit
  string past the range of a double.
\<close>

definition overflow_runtime :: runtime where
  "overflow_runtime = demo_runtime\<lparr>parseInt := (\<lambda>str radix. Infinity)\<rparr>"

section \<open>Properties of the client\<close>

lemma makeRequest_sent:
  "sent (snd (makeRequest fetch this endpoint POST (Some b) s)) =
     sent s @ [wire_request this endpoint b]"
  by (simp add: makeRequest_def wire_request_def Let_def split: prod.splits)

lemma createPlaybook_sent:
  "sent (snd (createPlaybook nw this pid s)) = sent s @ [create_request this pid]"
  by (simp add: createPlaybook_def create_request_def makeRequest_sent)

lemma updatePlaybook_sent:
  "sent (snd (updatePlaybook nw this pb s)) = sent s @ [update_request this pb]"
  by (simp add: updatePlaybook_def update_request_def makeRequest_sent)

text \<open>
  C1. \<^verbatim>\<open>createCompletePlaybook\<close> first issues the creation request for
  \<open>params.playbookId\<close>. If the creation Result has \<open>success: false\<close>, the outcome is
  the failure Result carrying the creation error, and the creation request is the only
  request issued: the update is never attempted. If creation succeeds, the outcome is
  verbatim that of \<^verbatim>\<open>updatePlaybook\<close> on the payload built from \<open>params\<close> (cronString
  defaulting to \<open>0 13 * * *\<close> and status to \<open>STATUS_ACTIVE\<close> when absent, paradigmType
  \<open>TYPE_SQL\<close>, triggerType \<open>TRIGGER_TYPE_CRON\<close>, connectorId inside paradigmOptions), and
  the update request follows the creation request on the wire.
\<close>

theorem createCompletePlaybook_contract:
  "let c = createPlaybook nw this (p_playbookId params) s;
       r = createCompletePlaybook nw this params s
   in (\<not> success (fst c) \<longrightarrow>
         r = (\<lparr>success = False, data = None, error = error (fst c)\<rparr>, snd c) \<and>
         sent (snd r) = sent s @ [create_request this (p_playbookId params)]) \<and>
      (success (fst c) \<longrightarrow>
         r = updatePlaybook nw this (spec_payload params) (snd c) \<and>
         sent (snd r) = sent s @ [create_request this (p_playbookId params),
                                  update_request this (spec_payload params)])"
  by (simp add: Let_def createCompletePlaybook_def case_prod_beta spec_payload_def
        createPlaybook_sent updatePlaybook_sent)

theorem createCompletePlaybook_contract_witness:
  "fst (createCompletePlaybook refusing_network demo_client demo_params fresh_net) =
     \<lparr>success = False, data = None,
      error = Some \<lparr>message = ''connection refused'', code = None, err_status = None\<rparr>\<rparr> \<and>
   sent (snd (createCompletePlaybook refusing_network demo_client demo_params fresh_net)) =
     [create_request demo_client ''pb-1''] \<and>
   fst (createCompletePlaybook accepting_network demo_client demo_params fresh_net) =
     \<lparr>success = True, data = Some demo_playbook, error = None\<rparr> \<and>
   sent (snd (createCompletePlaybook accepting_network demo_client demo_params fresh_net)) =
     [create_request demo_client ''pb-1'',
      update_request demo_client
        \<lparr>prompt = ''SELECT 1;'', name = ''Report'', playbookId = ''pb-1'',
         emailAddresses = [''a@example.com''], status = STATUS_ACTIVE,
         paradigmType = TYPE_SQL, paradigmOptions = \<lparr>connectorId = Num 213\<rparr>,
         triggerType = TRIGGER_TYPE_CRON, cronString = ''0 13 * * *''\<rparr>]"
  using createCompletePlaybook_contract [of refusing_network demo_client demo_params fresh_net]
    createCompletePlaybook_contract [of accepting_network demo_client demo_params fresh_net]
  by (simp add: Let_def createPlaybook_def updatePlaybook_def makeRequest_def caught_def
        refusing_network_def accepting_network_def demo_params_def fresh_net_def
        spec_payload_def create_request_def update_request_def wire_request_def)

lemma makeRequest_failure_contract:
  "failure_contract (fst (fetch (wire_request this endpoint b) (server s)))
     (fst (makeRequest fetch this endpoint POST (Some b) s))"
proof -
  obtain outcome srv where f: "fetch (wire_request this endpoint b) (server s) = (outcome, srv)"
    by (cases "fetch (wire_request this endpoint b) (server s)")
  have r: "fst (makeRequest fetch this endpoint POST (Some b) s) =
      (case outcome of
         Inl e \<Rightarrow> caught e
       | Inr response \<Rightarrow>
           if \<not> ok response then
             (case resp_text response of
                Inl e \<Rightarrow> caught e
              | Inr errorText \<Rightarrow>
                  \<lparr>success = False, data = None,
                   error = Some
                     (case errorText of
                        Parsable errorData \<Rightarrow> errorData
                      | Unparsable t \<Rightarrow>
                          \<lparr>message =
                             (if t \<noteq> [] then t
                              else ''HTTP '' @ string_of_nat (resp_status response) @ '': ''
                                     @ statusText response),
                           code = None,
                           err_status = Some (Num (of_nat (resp_status response)))\<rparr>)\<rparr>)
           else
             (case resp_json response of
                Inl e \<Rightarrow> caught e
              | Inr d \<Rightarrow> \<lparr>success = True, data = Some d, error = None\<rparr>))"
    using f by (simp add: makeRequest_def wire_request_def Let_def)
  show ?thesis
  proof (cases outcome)
    case (Inl e)
    with f r show ?thesis
      by (simp add: failure_contract_def caught_def)
  next
    case (Inr resp)
    show ?thesis
    proof (cases "ok resp")
      case True
      with Inr f r show ?thesis
        by (cases "resp_json resp") (auto simp: failure_contract_def caught_def)
    next
      case False
      show ?thesis
      proof (cases "resp_text resp")
        case (Inl e)
        with False Inr f r show ?thesis
          by (simp add: failure_contract_def caught_def)
      next
        case body: (Inr errorText)
        with False Inr f r show ?thesis
          by (cases errorText) (auto simp: failure_contract_def)
      qed
    qed
  qed
qed

text \<open>
  C2, as amended. For every transport behaviour, \<^verbatim>\<open>createPlaybook\<close>,
  \<^verbatim>\<open>updatePlaybook\<close> and \<^verbatim>\<open>getConnectors\<close> return a Result and never throw. When
  \<^verbatim>\<open>fetch\<close> throws, when the text of a non-success response cannot be read, or when the
  body of a success response cannot be read as JSON, the Result is a failure whose
  message is the exception's (the generic message for a thrown value that is not an
  Error). When the response has a non-success status and its text is not JSON, the
  Result is a failure with a non-empty message: the text, or the status line for an empty
  text. When that text is JSON, the Result is a failure carrying the parsed value
  unchanged, whatever its message. A Result has \<open>success: true\<close> only for a success
  response whose JSON was read, which it carries as its data.
\<close>

theorem request_failures_normalised:
  "failure_contract
     (fst (fetchCreate nw (create_request this pid) (server s)))
     (fst (createPlaybook nw this pid s)) \<and>
   failure_contract
     (fst (fetchUpdate nw (update_request this pb) (server s)))
     (fst (updatePlaybook nw this pb s)) \<and>
   failure_contract
     (fst (fetchConnectors nw
        (wire_request this
           ''/rpc/public/textql.rpc.public.connector.ConnectorService/GetConnectors''
           EmptyObject) (server s)))
     (fst (getConnectors nw this s))"
  by (simp add: createPlaybook_def updatePlaybook_def getConnectors_def
        create_request_def update_request_def makeRequest_failure_contract)

theorem request_failures_normalised_witness:
  "map_option message (error (fst (createPlaybook failing_network demo_client ''pb-1'' fresh_net))) =
     Some ''HTTP 500: Internal Server Error'' \<and>
   map_option message
     (error (fst (updatePlaybook failing_network demo_client (spec_payload demo_params) fresh_net))) =
     Some ''<html>Bad Gateway</html>'' \<and>
   error (fst (getConnectors failing_network demo_client fresh_net)) =
     Some \<lparr>message = ''down'', code = Some ''UNAVAILABLE'', err_status = Some (Num 503)\<rparr> \<and>
   map_option message (error (fst (getConnectors refusing_network demo_client fresh_net))) =
     Some ''connection refused'' \<and>
   fst (createPlaybook garbled_network demo_client ''pb-1'' fresh_net) =
     \<lparr>success = False, data = None,
      error = Some \<lparr>message = ''Unexpected token <'', code = None, err_status = None\<rparr>\<rparr> \<and>
   fst (getConnectors accepting_network demo_client fresh_net) =
     \<lparr>success = True, data = Some \<lparr>connectors = demo_connectors\<rparr>, error = None\<rparr>"
  using request_failures_normalised
      [of failing_network demo_client "''pb-1''" fresh_net "spec_payload demo_params"]
    request_failures_normalised
      [of refusing_network demo_client "''pb-1''" fresh_net "spec_payload demo_params"]
    request_failures_normalised
      [of garbled_network demo_client "''pb-1''" fresh_net "spec_payload demo_params"]
    request_failures_normalised
      [of accepting_network demo_client "''pb-1''" fresh_net "spec_payload demo_params"]
  by (simp add: failure_contract_def failing_network_def refusing_network_def
        garbled_network_def accepting_network_def
        fresh_net_def string_of_nat.simps createPlaybook_def updatePlaybook_def
        getConnectors_def makeRequest_def caught_def Let_def)

text \<open>
  C2 as stated fails: a non-success response whose body is the JSON object
  \<^verbatim>\<open>{"message": ""}\<close> yields a failure Result whose message is empty.
\<close>

theorem error_message_nonempty_counterexample:
  "\<not> success (fst (createPlaybook blank_error_network demo_client ''pb-1'' fresh_net)) \<and>
   map_option message
     (error (fst (createPlaybook blank_error_network demo_client ''pb-1'' fresh_net))) = Some []"
  by (simp add: createPlaybook_def makeRequest_def blank_error_network_def failing_network_def
        fresh_net_def Let_def)

text \<open>
  C3, as amended. Whenever the creation step succeeds, the composite and the manual
  two-step coincide: the same Result, the same requests in the same order, the same
  state of the service. When the creation step fails the composite stops after the
  creation request; the manual two-step sends the update request after it.
\<close>

theorem composite_equals_manual_when_created:
  "(success (fst (createPlaybook nw this (p_playbookId params) s)) \<longrightarrow>
      createCompletePlaybook nw this params s = manual_create_then_update nw this params s) \<and>
   (\<not> success (fst (createPlaybook nw this (p_playbookId params) s)) \<longrightarrow>
      sent (snd (createCompletePlaybook nw this params s)) =
        sent s @ [create_request this (p_playbookId params)] \<and>
      sent (snd (manual_create_then_update nw this params s)) =
        sent s @ [create_request this (p_playbookId params),
                  update_request this (spec_payload params)])"
  by (simp add: createCompletePlaybook_def manual_create_then_update_def Let_def
        case_prod_beta spec_payload_def createPlaybook_sent updatePlaybook_sent)

theorem composite_equals_manual_when_created_witness:
  "createCompletePlaybook accepting_network demo_client demo_params fresh_net =
     manual_create_then_update accepting_network demo_client demo_params fresh_net \<and>
   server (snd (createCompletePlaybook accepting_network demo_client demo_params fresh_net)) = 2 \<and>
   length (sent (snd (createCompletePlaybook refusing_network demo_client demo_params fresh_net))) = 1 \<and>
   length (sent (snd (manual_create_then_update refusing_network demo_client demo_params fresh_net))) = 2"
  using composite_equals_manual_when_created
      [of accepting_network demo_client demo_params fresh_net]
    composite_equals_manual_when_created
      [of refusing_network demo_client demo_params fresh_net]
  by (simp add: createCompletePlaybook_def manual_create_then_update_def createPlaybook_def
        updatePlaybook_def makeRequest_def caught_def accepting_network_def
        refusing_network_def demo_params_def fresh_net_def spec_payload_def
        create_request_def update_request_def wire_request_def Let_def)

text \<open>
  C3 as stated fails: when the connection is refused, the composite issues one request
  and the manual two-step two.
\<close>

theorem composite_requests_counterexample:
  "sent (snd (createCompletePlaybook refusing_network demo_client demo_params fresh_net)) \<noteq>
   sent (snd (manual_create_then_update refusing_network demo_client demo_params fresh_net))"
  by (simp add: createCompletePlaybook_def manual_create_then_update_def createPlaybook_def
        updatePlaybook_def makeRequest_def caught_def refusing_network_def fresh_net_def
        Let_def)

section \<open>Properties of the connector lookup\<close>

lemma str_includes_sublist: "str_includes hay needle \<longleftrightarrow> sublist needle hay"
  by (induction hay) (simp_all add: sublist_Cons_right)

lemma lower_char_upper:
  "65 \<le> (of_char c :: nat) \<Longrightarrow> (of_char c :: nat) \<le> 90 \<Longrightarrow>
     (of_char (lower_char c) :: nat) = of_char c + 32"
  by (cases c) (auto simp: lower_char_def of_bool_def split: if_splits)

lemma lower_char_other:
  "\<not> (65 \<le> (of_char c :: nat) \<and> (of_char c :: nat) \<le> 90) \<Longrightarrow> lower_char c = c"
  by (auto simp: lower_char_def)

lemma lower_char_eq_iff: "lower_char a = lower_char b \<longleftrightarrow> same_letter a b"
proof -
  have inj: "\<And>x y. (of_char x :: nat) = of_char y \<longleftrightarrow> x = y" by simp
  consider (uu) "65 \<le> (of_char a :: nat) \<and> (of_char a :: nat) \<le> 90" "65 \<le> (of_char b :: nat) \<and> (of_char b :: nat) \<le> 90"
    | (ul) "65 \<le> (of_char a :: nat) \<and> (of_char a :: nat) \<le> 90" "\<not> (65 \<le> (of_char b :: nat) \<and> (of_char b :: nat) \<le> 90)"
    | (lu) "\<not> (65 \<le> (of_char a :: nat) \<and> (of_char a :: nat) \<le> 90)" "65 \<le> (of_char b :: nat) \<and> (of_char b :: nat) \<le> 90"
    | (ll) "\<not> (65 \<le> (of_char a :: nat) \<and> (of_char a :: nat) \<le> 90)" "\<not> (65 \<le> (of_char b :: nat) \<and> (of_char b :: nat) \<le> 90)"
    by blast
  then show ?thesis
  proof cases
    case uu
    have "lower_char a = lower_char b \<longleftrightarrow> (of_char (lower_char a) :: nat) = of_char (lower_char b)"
      by simp
    also have "\<dots> \<longleftrightarrow> (of_char a :: nat) = of_char b"
      using uu by (simp add: lower_char_upper)
    also have "\<dots> \<longleftrightarrow> a = b" by simp
    finally show ?thesis using uu by (auto simp: same_letter_def)
  next
    case ul
    have "lower_char a = lower_char b \<longleftrightarrow> (of_char (lower_char a) :: nat) = of_char b"
      using ul by (simp add: lower_char_other)
    also have "\<dots> \<longleftrightarrow> (of_char b :: nat) = of_char a + 32"
      using ul by (auto simp: lower_char_upper)
    finally show ?thesis using ul by (auto simp: same_letter_def)
  next
    case lu
    have "lower_char a = lower_char b \<longleftrightarrow> (of_char a :: nat) = of_char (lower_char b)"
      using lu by (simp add: lower_char_other)
    also have "\<dots> \<longleftrightarrow> (of_char a :: nat) = of_char b + 32"
      using lu by (auto simp: lower_char_upper)
    finally show ?thesis using lu by (auto simp: same_letter_def)
  next
    case ll
    then show ?thesis by (auto simp: lower_char_other same_letter_def)
  qed
qed

lemma ascii_toLowerCase_eq_iff:
  "ascii_toLowerCase xs = ascii_toLowerCase ys \<longleftrightarrow> list_all2 same_letter xs ys"
proof -
  have "ascii_toLowerCase xs = ascii_toLowerCase ys \<longleftrightarrow>
      list_all2 (=) (map lower_char xs) (map lower_char ys)"
    by (simp add: ascii_toLowerCase_def list.rel_eq)
  also have "\<dots> \<longleftrightarrow> list_all2 (\<lambda>a b. lower_char a = lower_char b) xs ys"
    by (simp add: list.rel_map)
  finally show ?thesis by (simp add: lower_char_eq_iff)
qed

lemma includes_folded_iff:
  "str_includes (lower hay) (lower needle) \<longleftrightarrow> ci_substring lower needle hay"
  by (simp add: str_includes_sublist sublist_def ci_substring_def)

text \<open>
  With the ASCII case mapping, case-insensitive containment is containment letter by
  letter.
\<close>

lemma ascii_ci_substring_iff:
  "ci_substring ascii_toLowerCase needle hay \<longleftrightarrow> ascii_ci_substring needle hay"
proof
  assume "ci_substring ascii_toLowerCase needle hay"
  then obtain ps ss where "map lower_char hay = ps @ ascii_toLowerCase needle @ ss"
    by (auto simp: ci_substring_def ascii_toLowerCase_def)
  then have "\<exists>us rest. hay = us @ rest \<and> ps = map lower_char us \<and>
      ascii_toLowerCase needle @ ss = map lower_char rest"
    by (simp add: map_eq_append_conv)
  then obtain us rest where u: "hay = us @ rest"
    and r: "ascii_toLowerCase needle @ ss = map lower_char rest"
    by blast
  from r have "\<exists>vs ws. rest = vs @ ws \<and> ascii_toLowerCase needle = map lower_char vs \<and>
      ss = map lower_char ws"
    by (simp add: append_eq_map_conv)
  then obtain vs ws where v: "rest = vs @ ws"
    and m: "ascii_toLowerCase needle = map lower_char vs"
    by blast
  from u v have h: "hay = us @ vs @ ws" by simp
  from m have "list_all2 same_letter vs needle"
    using ascii_toLowerCase_eq_iff [of vs needle] by (simp add: ascii_toLowerCase_def)
  with h show "ascii_ci_substring needle hay"
    by (auto simp: ascii_ci_substring_def)
next
  assume "ascii_ci_substring needle hay"
  then obtain ps mid ss where h: "hay = ps @ mid @ ss" and m: "list_all2 same_letter mid needle"
    by (auto simp: ascii_ci_substring_def)
  from m have "ascii_toLowerCase mid = ascii_toLowerCase needle"
    by (simp add: ascii_toLowerCase_eq_iff)
  with h have "ascii_toLowerCase hay =
      ascii_toLowerCase ps @ ascii_toLowerCase needle @ ascii_toLowerCase ss"
    by (simp add: ascii_toLowerCase_def)
  then show "ci_substring ascii_toLowerCase needle hay"
    by (auto simp: ci_substring_def)
qed

lemma find_first:
  "find P xs = Some x \<Longrightarrow> \<exists>pre post. xs = pre @ x # post \<and> P x \<and> (\<forall>y\<in>set pre. \<not> P y)"
proof (induction xs)
  case Nil
  then show ?case by simp
next
  case (Cons a xs)
  show ?case
  proof (cases "P a")
    case True
    with Cons.prems have "a = x" by simp
    with True show ?thesis by (intro exI [of _ "[]"] exI [of _ xs]) auto
  next
    case False
    with Cons.prems have "find P xs = Some x" by simp
    then obtain pre post where "xs = pre @ x # post" "P x" "\<forall>y\<in>set pre. \<not> P y"
      using Cons.IH by blast
    with False show ?thesis by (intro exI [of _ "a # pre"] exI [of _ post]) auto
  qed
qed

text \<open>
  C4. \<^verbatim>\<open>listConnectors\<close> calls \<^verbatim>\<open>getConnectors\<close> once. Whenever the Result has
  \<open>success: false\<close> or carries no data it throws an Error whose message is the
  Result's error message, or the fixed text \<open>Failed to fetch connectors\<close> when the
  Result has no error or an empty message; otherwise it returns the bare connector
  sequence. \<^verbatim>\<open>findConnectorByName\<close> throws exactly when \<^verbatim>\<open>listConnectors\<close> throws, the
  same value, and leaves the network as \<^verbatim>\<open>listConnectors\<close> does.
\<close>

theorem listConnectors_raises_on_failure:
  "let r = fst (getConnectors nw this s);
       s' = snd (getConnectors nw this s)
   in ((\<not> success r \<or> data r = None) \<longrightarrow>
         (\<exists>m. listConnectors nw this s = (Inl (Error m), s') \<and> m \<noteq> [] \<and>
              m = (case error r of
                     None \<Rightarrow> ''Failed to fetch connectors''
                   | Some e \<Rightarrow> if message e \<noteq> [] then message e
                               else ''Failed to fetch connectors''))) \<and>
      (success r \<and> data r \<noteq> None \<longrightarrow>
         listConnectors nw this s = (Inr (connectors (the (data r))), s')) \<and>
      (\<forall>e. fst (findConnectorByName rt nw this nm s) = Inl e \<longleftrightarrow>
           fst (listConnectors nw this s) = Inl e) \<and>
      snd (findConnectorByName rt nw this nm s) = snd (listConnectors nw this s)"
  by (auto simp: Let_def listConnectors_def findConnectorByName_def case_prod_beta
        split: option.splits sum.splits)

theorem listConnectors_raises_on_failure_witness:
  "fst (listConnectors failing_network demo_client fresh_net) = Inl (Error ''down'') \<and>
   fst (findConnectorByName demo_runtime failing_network demo_client ''postgres'' fresh_net) =
     Inl (Error ''down'') \<and>
   fst (listConnectors refusing_network demo_client fresh_net) =
     Inl (Error ''connection refused'') \<and>
   fst (listConnectors accepting_network demo_client fresh_net) = Inr demo_connectors"
  using listConnectors_raises_on_failure
      [of failing_network demo_client fresh_net demo_runtime "''postgres''"]
    listConnectors_raises_on_failure
      [of refusing_network demo_client fresh_net demo_runtime "''postgres''"]
    listConnectors_raises_on_failure
      [of accepting_network demo_client fresh_net demo_runtime "''postgres''"]
  by (simp add: Let_def listConnectors_def findConnectorByName_def getConnectors_def
        makeRequest_def caught_def failing_network_def refusing_network_def
        accepting_network_def fresh_net_def)

text \<open>
  C5. For every name string, every case mapping the runtime's \<^verbatim>\<open>toLowerCase\<close> may be
  (the Unicode one among them) and every connector list that \<^verbatim>\<open>listConnectors\<close>
  returns, \<^verbatim>\<open>findConnectorByName\<close> returns the first connector, in list order, whose
  name contains the given name as a case-insensitive substring (no earlier connector
  matches, later matches are ignored, the list is not reordered), and returns
  \<^verbatim>\<open>null\<close> when no connector matches.
\<close>

theorem findConnectorByName_first_match:
  assumes "fst (listConnectors nw this s) = Inr cs"
  shows "(\<exists>c pre post. fst (findConnectorByName rt nw this nm s) = Inr (Some c) \<and>
            cs = pre @ c # post \<and> ci_substring (toLowerCase rt) nm (c_name c) \<and>
            (\<forall>x\<in>set pre. \<not> ci_substring (toLowerCase rt) nm (c_name x))) \<or>
         (fst (findConnectorByName rt nw this nm s) = Inr None \<and>
            (\<forall>x\<in>set cs. \<not> ci_substring (toLowerCase rt) nm (c_name x)))"
proof -
  let ?P = "\<lambda>connector.
    str_includes (toLowerCase rt (c_name connector)) (toLowerCase rt nm)"
  have f: "fst (findConnectorByName rt nw this nm s) = Inr (find ?P cs)"
    using assms by (cases "listConnectors nw this s") (simp add: findConnectorByName_def)
  show ?thesis
  proof (cases "find ?P cs")
    case None
    then have "\<forall>x\<in>set cs. \<not> ?P x" by (simp add: find_None_iff)
    with None f show ?thesis by (simp add: includes_folded_iff)
  next
    case (Some c)
    from find_first [OF Some] obtain pre post
      where "cs = pre @ c # post" "?P c" "\<forall>y\<in>set pre. \<not> ?P y" by blast
    with Some f show ?thesis by (auto simp: includes_folded_iff)
  qed
qed

theorem findConnectorByName_first_match_witness:
  "fst (listConnectors accepting_network demo_client fresh_net) = Inr demo_connectors \<and>
   fst (findConnectorByName demo_runtime accepting_network demo_client ''postgres'' fresh_net) =
     Inr (Some \<lparr>c_id = Num 1, c_name = ''Postgres-Prod'', c_type = ''postgres'',
                 c_status = ''ok'', createdAt = ''2024-01-01'', updatedAt = ''2024-01-02''\<rparr>) \<and>
   fst (findConnectorByName demo_runtime accepting_network demo_client ''SQL'' fresh_net) =
     Inr (Some \<lparr>c_id = Num 2, c_name = ''MySQL'', c_type = ''mysql'',
                 c_status = ''ok'', createdAt = ''2024-01-01'', updatedAt = ''2024-01-02''\<rparr>) \<and>
   fst (findConnectorByName demo_runtime accepting_network demo_client ''oracle'' fresh_net) =
     Inr None \<and>
   fst (listConnectors french_network demo_client fresh_net) =
     Inr [hd demo_connectors, ecole] \<and>
   fst (findConnectorByName latin_runtime french_network demo_client [CHR 0xC3, CHR 0xA9]
          fresh_net) = Inr (Some ecole)"
proof -
  have h: "fst (listConnectors accepting_network demo_client fresh_net) = Inr demo_connectors"
    by (simp add: listConnectors_def getConnectors_def makeRequest_def accepting_network_def
          fresh_net_def Let_def)
  have h': "fst (listConnectors french_network demo_client fresh_net) =
      Inr [hd demo_connectors, ecole]"
    by (simp add: listConnectors_def getConnectors_def makeRequest_def accepting_network_def
          french_network_def fresh_net_def Let_def)
  show ?thesis
    using h h' findConnectorByName_first_match [OF h, of demo_runtime "''postgres''"]
      findConnectorByName_first_match [OF h, of demo_runtime "''SQL''"]
      findConnectorByName_first_match [OF h, of demo_runtime "''oracle''"]
      findConnectorByName_first_match [OF h', of latin_runtime "[CHR 0xC3, CHR 0xA9]"]
    by (simp add: findConnectorByName_def listConnectors_def getConnectors_def
          makeRequest_def accepting_network_def french_network_def fresh_net_def
          demo_connectors_def demo_runtime_def latin_runtime_def ecole_def
          ascii_toLowerCase_def lower_char_def Let_def)
qed

section \<open>Properties of the configuration store\<close>

lemmas world_defs = demo_world_def cron_only_world_def keyless_world_def zero_default_world_def
  fresh_net_def

lemmas config_defs = getApiKey_def getBaseUrl_def getDefaultConnectorId_def
  getDefaultCronString_def loadConfig_def saveConfig_def setApiKey_def
  setDefaultConnectorId_def setDefaultCronString_def stringified_def empty_config_def say_def

lemma say_frame:
  "net (say m w) = net w" "configFile (say m w) = configFile w"
  "TEXTQL_API_KEY (say m w) = TEXTQL_API_KEY w" "write_failure (say m w) = write_failure w"
  "console (say m w) = console w @ [m]"
  by (simp_all add: say_def)

lemma loadConfig_frame:
  "net (snd (loadConfig w)) = net w" "configFile (snd (loadConfig w)) = configFile w"
  "TEXTQL_API_KEY (snd (loadConfig w)) = TEXTQL_API_KEY w"
  "write_failure (snd (loadConfig w)) = write_failure w"
  by (simp_all add: loadConfig_def say_frame split: config_file.splits)

lemma loadConfig_value: "fst (loadConfig w) = settings_of (configFile w)"
  by (simp add: loadConfig_def settings_of_def split: config_file.splits)

lemma getApiKey_frame:
  "net (snd (getApiKey w)) = net w" "configFile (snd (getApiKey w)) = configFile w"
  "TEXTQL_API_KEY (snd (getApiKey w)) = TEXTQL_API_KEY w"
  by (simp_all add: getApiKey_def case_prod_beta loadConfig_frame)

lemma getApiKey_value:
  "fst (getApiKey w) =
     (if truthy (apiKey (settings_of (configFile w))) then apiKey (settings_of (configFile w))
      else if truthy (TEXTQL_API_KEY w) then TEXTQL_API_KEY w else None)"
  by (simp add: getApiKey_def case_prod_beta loadConfig_frame loadConfig_value)

lemma getBaseUrl_frame:
  "net (snd (getBaseUrl w)) = net w" "configFile (snd (getBaseUrl w)) = configFile w"
  "TEXTQL_API_KEY (snd (getBaseUrl w)) = TEXTQL_API_KEY w"
  by (simp_all add: getBaseUrl_def case_prod_beta loadConfig_frame)

lemma getBaseUrl_value:
  "fst (getBaseUrl w) =
     (case baseUrl (settings_of (configFile w)) of
        None \<Rightarrow> ''https://app.textql.com''
      | Some b \<Rightarrow> if b \<noteq> [] then b else ''https://app.textql.com'')"
  by (simp add: getBaseUrl_def case_prod_beta loadConfig_value)

lemma getDefaultConnectorId_frame:
  "net (snd (getDefaultConnectorId w)) = net w"
  "configFile (snd (getDefaultConnectorId w)) = configFile w"
  by (simp_all add: getDefaultConnectorId_def case_prod_beta loadConfig_frame)

lemma getDefaultConnectorId_value:
  "fst (getDefaultConnectorId w) =
     (if truthy_num (defaultConnectorId (settings_of (configFile w)))
      then defaultConnectorId (settings_of (configFile w)) else None)"
  by (simp add: getDefaultConnectorId_def case_prod_beta loadConfig_value)

lemma getDefaultCronString_frame:
  "net (snd (getDefaultCronString w)) = net w"
  "configFile (snd (getDefaultCronString w)) = configFile w"
  by (simp_all add: getDefaultCronString_def case_prod_beta loadConfig_frame)

lemma getDefaultCronString_value:
  "fst (getDefaultCronString w) =
     (case defaultCronString (settings_of (configFile w)) of
        None \<Rightarrow> ''0 13 * * *''
      | Some x \<Rightarrow> if x \<noteq> [] then x else ''0 13 * * *'')"
  by (simp add: getDefaultCronString_def case_prod_beta loadConfig_value)

lemma ensureClient_None:
  "fst (ensureClient None w) =
     (if truthy (fst (getApiKey w))
      then Returned (new_TextQLClient \<lparr>cfg_apiKey = the (fst (getApiKey w)),
                                        cfg_baseUrl = Some (fst (getBaseUrl w))\<rparr>)
      else Exited 1)"
  "net (snd (ensureClient None w)) = net w"
  "configFile (snd (ensureClient None w)) = configFile w"
  by (simp_all add: ensureClient_def initializeClient_def case_prod_beta Let_def
        getApiKey_frame getBaseUrl_frame getBaseUrl_value say_frame)

lemma flag_or_truthy:
  "flag_or key args d = (if truthy (argValue key args) then the (argValue key args) else d)"
  by (cases "argValue key args") (simp_all add: flag_or_def)



text \<open>
  C8. The configuration file has precedence over the environment. Whenever the
  persisted settings carry an API key (a non-empty \<open>apiKey\<close>), \<^verbatim>\<open>getApiKey\<close> returns
  it, whatever the environment variable holds. When they carry none (no file, an
  unreadable file, no \<open>apiKey\<close> or an empty one), it returns the value of
  \<^verbatim>\<open>TEXTQL_API_KEY\<close> if that is set and not empty, and \<^verbatim>\<open>null\<close> when both sources are
  empty.
\<close>

theorem getApiKey_precedence:
  "(\<forall>c. configFile w = Stored c \<and> truthy (apiKey c) \<longrightarrow> fst (getApiKey w) = apiKey c) \<and>
   ((\<forall>c. configFile w = Stored c \<longrightarrow> \<not> truthy (apiKey c)) \<longrightarrow>
      fst (getApiKey w) = (if truthy (TEXTQL_API_KEY w) then TEXTQL_API_KEY w else None))"
  by (cases "configFile w")
    (auto simp: getApiKey_def loadConfig_def empty_config_def say_def Let_def)

theorem getApiKey_precedence_witness:
  "fst (getApiKey demo_world) = Some ''file-key'' \<and>
   fst (getApiKey (demo_world\<lparr>TEXTQL_API_KEY := None\<rparr>)) = Some ''file-key'' \<and>
   fst (getApiKey cron_only_world) = Some ''env-key'' \<and>
   fst (getApiKey (demo_world\<lparr>configFile := Corrupt\<rparr>)) = Some ''env-key'' \<and>
   fst (getApiKey keyless_world) = None"
  using getApiKey_precedence [of demo_world]
    getApiKey_precedence [of "demo_world\<lparr>TEXTQL_API_KEY := None\<rparr>"]
    getApiKey_precedence [of cron_only_world]
    getApiKey_precedence [of "demo_world\<lparr>configFile := Corrupt\<rparr>"]
    getApiKey_precedence [of keyless_world]
  by (simp add: world_defs)

text \<open>
  C9. For every well-formed persisted settings record (the file holds a record, and
  neither \<^verbatim>\<open>NaN\<close> nor an infinity, which JSON cannot hold) and a file system that
  accepts the write, each of
  \<^verbatim>\<open>setApiKey\<close>, \<^verbatim>\<open>setDefaultConnectorId\<close> and \<^verbatim>\<open>setDefaultCronString\<close> rewrites the
  file with its own field set and the three other fields carrying their previous values;
  nothing else of the process state changes.
\<close>

theorem set_operations_frame:
  assumes "configFile w = Stored c"
    and "defaultConnectorId c \<notin> {Some NaN, Some Infinity, Some NegInfinity}"
    and "write_failure w = None"
  shows "(\<exists>c'. setApiKey k w = (Inr (), w\<lparr>configFile := Stored c'\<rparr>) \<and>
            apiKey c' = Some k \<and> baseUrl c' = baseUrl c \<and>
            defaultConnectorId c' = defaultConnectorId c \<and>
            defaultCronString c' = defaultCronString c) \<and>
         (\<exists>c'. setDefaultConnectorId n w = (Inr (), w\<lparr>configFile := Stored c'\<rparr>) \<and>
            defaultConnectorId c' = (if n \<in> {NaN, Infinity, NegInfinity} then None else Some n) \<and>
            apiKey c' = apiKey c \<and> baseUrl c' = baseUrl c \<and>
            defaultCronString c' = defaultCronString c) \<and>
         (\<exists>c'. setDefaultCronString x w = (Inr (), w\<lparr>configFile := Stored c'\<rparr>) \<and>
            defaultCronString c' = Some x \<and> apiKey c' = apiKey c \<and> baseUrl c' = baseUrl c \<and>
            defaultConnectorId c' = defaultConnectorId c)"
proof -
  have written: "map_option Num (JSON_number m) =
      (if m \<in> {NaN, Infinity, NegInfinity} then None else Some m)" for m
    by (cases m) simp_all
  have kept: "(case defaultConnectorId c of
                 None \<Rightarrow> None
               | Some m \<Rightarrow> map_option Num (JSON_number m)) = defaultConnectorId c"
    using assms(2) by (cases "defaultConnectorId c") (auto simp: written)
  have "setApiKey k w = (Inr (), w\<lparr>configFile := Stored (c\<lparr>apiKey := Some k\<rparr>)\<rparr>)"
    using assms(1,3) kept
    by (simp add: setApiKey_def loadConfig_def saveConfig_def stringified_def)
  then have key: "\<exists>c'. setApiKey k w = (Inr (), w\<lparr>configFile := Stored c'\<rparr>) \<and>
      apiKey c' = Some k \<and> baseUrl c' = baseUrl c \<and>
      defaultConnectorId c' = defaultConnectorId c \<and>
      defaultCronString c' = defaultCronString c"
    by (intro exI [of _ "c\<lparr>apiKey := Some k\<rparr>"]) simp
  have "setDefaultConnectorId n w =
      (Inr (), w\<lparr>configFile := Stored (c\<lparr>defaultConnectorId :=
         (if n \<in> {NaN, Infinity, NegInfinity} then None else Some n)\<rparr>)\<rparr>)"
    using assms(1,3) written [of n]
    by (simp add: setDefaultConnectorId_def loadConfig_def saveConfig_def stringified_def)
  then have connector: "\<exists>c'. setDefaultConnectorId n w = (Inr (), w\<lparr>configFile := Stored c'\<rparr>) \<and>
      defaultConnectorId c' = (if n \<in> {NaN, Infinity, NegInfinity} then None else Some n) \<and>
      apiKey c' = apiKey c \<and> baseUrl c' = baseUrl c \<and>
      defaultCronString c' = defaultCronString c"
    by (intro exI [of _ "c\<lparr>defaultConnectorId :=
          (if n \<in> {NaN, Infinity, NegInfinity} then None else Some n)\<rparr>"])
      (simp del: insert_iff)
  have "setDefaultCronString x w =
      (Inr (), w\<lparr>configFile := Stored (c\<lparr>defaultCronString := Some x\<rparr>)\<rparr>)"
    using assms(1,3) kept
    by (simp add: setDefaultCronString_def loadConfig_def saveConfig_def stringified_def)
  then have cron: "\<exists>c'. setDefaultCronString x w = (Inr (), w\<lparr>configFile := Stored c'\<rparr>) \<and>
      defaultCronString c' = Some x \<and> apiKey c' = apiKey c \<and> baseUrl c' = baseUrl c \<and>
      defaultConnectorId c' = defaultConnectorId c"
    by (intro exI [of _ "c\<lparr>defaultCronString := Some x\<rparr>"]) simp
  from key connector cron show ?thesis
    by (intro conjI)
qed

theorem set_operations_frame_witness:
  "configFile demo_world =
     Stored \<lparr>apiKey = Some ''file-key'', baseUrl = None, defaultConnectorId = Some (Num 213),
             defaultCronString = Some ''0 9 * * *''\<rparr> \<and>
   write_failure demo_world = None \<and>
   configFile (snd (setApiKey ''new-key'' demo_world)) =
     Stored \<lparr>apiKey = Some ''new-key'', baseUrl = None, defaultConnectorId = Some (Num 213),
             defaultCronString = Some ''0 9 * * *''\<rparr> \<and>
   configFile (snd (setDefaultConnectorId (Num 7) demo_world)) =
     Stored \<lparr>apiKey = Some ''file-key'', baseUrl = None, defaultConnectorId = Some (Num 7),
             defaultCronString = Some ''0 9 * * *''\<rparr> \<and>
   configFile (snd (setDefaultCronString ''0 8 * * *'' demo_world)) =
     Stored \<lparr>apiKey = Some ''file-key'', baseUrl = None, defaultConnectorId = Some (Num 213),
             defaultCronString = Some ''0 8 * * *''\<rparr>"
proof -
  have h1: "configFile demo_world =
     Stored \<lparr>apiKey = Some ''file-key'', baseUrl = None, defaultConnectorId = Some (Num 213),
             defaultCronString = Some ''0 9 * * *''\<rparr>"
    by (simp add: demo_world_def)
  have h2: "defaultConnectorId \<lparr>apiKey = Some ''file-key'', baseUrl = None,
      defaultConnectorId = Some (Num 213), defaultCronString = Some ''0 9 * * *''\<rparr>
      \<notin> {Some NaN, Some Infinity, Some NegInfinity}"
    by simp
  have h3: "write_failure demo_world = None"
    by (simp add: demo_world_def)
  show ?thesis
    using h1 h3 set_operations_frame [OF h1 h2 h3, of "''new-key''" "Num 7" "''0 8 * * *''"]
    by (simp add: config_defs world_defs)
qed

section \<open>Properties of the command line\<close>

lemma ensureClient_no_key:
  assumes "\<forall>c. configFile w = Stored c \<longrightarrow> \<not> truthy (apiKey c)"
    and "\<not> truthy (TEXTQL_API_KEY w)"
  shows "\<exists>w1. ensureClient None w = (Exited 1, w1) \<and> net w1 = net w"
  using assms
  by (cases "configFile w")
    (auto simp: ensureClient_def initializeClient_def getApiKey_def loadConfig_def
       empty_config_def say_def Let_def)

text \<open>
  C7. For every invocation of \<^verbatim>\<open>connectors\<close>, \<^verbatim>\<open>create\<close> or \<^verbatim>\<open>update\<close>, whatever
  the other arguments: if the persisted settings carry no API key and
  \<^verbatim>\<open>TEXTQL_API_KEY\<close> is unset (or empty), the process ends with exit status 1 and the
  network is untouched: no request is issued.
\<close>

theorem no_api_key_exits:
  assumes "cmd \<in> {''connectors'', ''create'', ''update''}"
    and "\<forall>c. configFile w = Stored c \<longrightarrow> \<not> truthy (apiKey c)"
    and "\<not> truthy (TEXTQL_API_KEY w)"
  shows "fst (main rt nw (cmd # rest) w) = 1 \<and> net (snd (main rt nw (cmd # rest) w)) = net w"
proof -
  obtain w1 where e: "ensureClient None w = (Exited 1, w1)" and n: "net w1 = net w"
    using ensureClient_no_key [OF assms(2,3)] by blast
  from assms(1) e n show ?thesis
    by (auto simp: main_def run_def nth_opt_def handleConnectors_def handleCreate_def
          handleUpdate_def)
qed




theorem no_api_key_exits_witness:
  "fst (main demo_runtime accepting_network [''create'', ''--id=pb-1''] keyless_world) = 1 \<and>
   net (snd (main demo_runtime accepting_network [''create'', ''--id=pb-1''] keyless_world)) =
     fresh_net \<and>
   fst (main demo_runtime accepting_network [''connectors''] keyless_world) = 1 \<and>
   fst (main demo_runtime accepting_network [''update'', ''--id=pb-1'', ''--connector=5'']
          keyless_world) = 1"
proof -
  have h1: "''create'' \<in> {''connectors'', ''create'', ''update''}"
    and h1': "''connectors'' \<in> {''connectors'', ''create'', ''update''}"
    and h1'': "''update'' \<in> {''connectors'', ''create'', ''update''}"
    by simp_all
  have h2: "\<forall>c. configFile keyless_world = Stored c \<longrightarrow> \<not> truthy (apiKey c)"
    by (simp add: world_defs)
  have h3: "\<not> truthy (TEXTQL_API_KEY keyless_world)"
    by (simp add: world_defs)
  show ?thesis
    using no_api_key_exits [OF h1 h2 h3, of demo_runtime accepting_network "[''--id=pb-1'']"]
      no_api_key_exits [OF h1' h2 h3, of demo_runtime accepting_network "[]"]
      no_api_key_exits [OF h1'' h2 h3, of demo_runtime accepting_network
        "[''--id=pb-1'', ''--connector=5'']"]
    by (simp add: world_defs)
qed

lemma status_flag:
  "(case (if a = Some ''STATUS_ACTIVE'' then Some STATUS_ACTIVE
          else if a = Some ''STATUS_INACTIVE'' then Some STATUS_INACTIVE else None) of
      None \<Rightarrow> STATUS_ACTIVE | Some x \<Rightarrow> x)
   = (if a = Some ''STATUS_INACTIVE'' then STATUS_INACTIVE else STATUS_ACTIVE)"
  by simp

text \<open>
  C6, as amended. An \<^verbatim>\<open>update\<close> invocation submits a payload exactly when an API key
  is available, \<^verbatim>\<open>--id\<close> is given and not empty, and a connector id resolves to a
  truthy number: the value \<^verbatim>\<open>parseInt\<close> reads from a non-empty \<^verbatim>\<open>--connector\<close> flag,
  else the persisted default; there is no hardcoded connector. It is then the single
  request sent, an update whose payload is complete and is computed from the flags and
  the persisted settings alone, never fetched from the service: prompt, name, emails and
  status from their flag, else the hardcoded default; cronString from \<^verbatim>\<open>--cron\<close>, else
  the persisted default, else the hardcoded one. In every other invocation the process
  exits with status 1 and nothing is sent. In particular, with a persisted
  \<open>defaultCronString\<close> of \<open>0 9 * * *\<close> and no \<^verbatim>\<open>--cron\<close> flag, the cronString of a
  submitted payload is \<open>0 9 * * *\<close>.
\<close>

theorem handleUpdate_payload:
  "let settings = fst (loadConfig w);
       client = new_TextQLClient \<lparr>cfg_apiKey = the (fst (getApiKey w)),
                                   cfg_baseUrl = Some (fst (getBaseUrl w))\<rparr>;
       w' = snd (handleUpdate rt nw None args w)
   in (if truthy (fst (getApiKey w)) \<and> truthy (argValue ''--id='' args) \<and>
          truthy_num (resolved_connector rt args settings)
       then sent (net w') =
              sent (net w) @ [update_request client (spec_update_payload rt args settings)]
       else net w' = net w \<and> fst (handleUpdate rt nw None args w) = Exited 1) \<and>
      (\<not> truthy (argValue ''--cron='' args) \<and> defaultCronString settings = Some ''0 9 * * *''
         \<longrightarrow> cronString (spec_update_payload rt args settings) = ''0 9 * * *'')"
proof -
  define settings where "settings = settings_of (configFile w)"
  define client where
    "client = new_TextQLClient \<lparr>cfg_apiKey = the (fst (getApiKey w)),
                                 cfg_baseUrl = Some (fst (getBaseUrl w))\<rparr>"
  define P where "P cid cron =
      \<lparr>prompt = (if truthy (argValue ''--prompt='' args)
                 then the (argValue ''--prompt='' args) else ''SELECT 1;''),
       name = (if truthy (argValue ''--name='' args)
               then the (argValue ''--name='' args) else ''Updated Playbook''),
       playbookId = the (argValue ''--id='' args),
       emailAddresses =
         (case map_option (split_on CHR '','') (argValue ''--emails='' args) of
            None \<Rightarrow> [''admin@example.com''] | Some es \<Rightarrow> es),
       status =
         (case (if argValue ''--status='' args = Some ''STATUS_ACTIVE'' then Some STATUS_ACTIVE
                else if argValue ''--status='' args = Some ''STATUS_INACTIVE''
                     then Some STATUS_INACTIVE
                     else None) of
            None \<Rightarrow> STATUS_ACTIVE | Some x \<Rightarrow> x),
       paradigmType = TYPE_SQL,
       paradigmOptions = \<lparr>connectorId = cid\<rparr>,
       triggerType = TRIGGER_TYPE_CRON,
       cronString = cron\<rparr>" for cid :: number and cron
  have body: "handleUpdate rt nw None args w =
     (case ensureClient None w of
        (Exited c, w1) \<Rightarrow> (Exited c, w1)
      | (Threw e, w1) \<Rightarrow> (Threw e, w1)
      | (Returned client, w1) \<Rightarrow>
          if \<not> truthy (argValue ''--id='' args) then
            (Exited 1, say Log_UpdateUsage (say Err_IdRequired w1))
          else
            (let (connectorIdNum, w2) =
                   (if truthy (argValue ''--connector='' args)
                    then (Some (parseInt rt (the (argValue ''--connector='' args)) 0), w1)
                    else getDefaultConnectorId w1)
             in if \<not> truthy_num connectorIdNum then (Exited 1, say Err_NoConnectorId w2)
                else
                  (let (cron, w3) =
                         (if truthy (argValue ''--cron='' args)
                          then (the (argValue ''--cron='' args), w2)
                          else getDefaultCronString w2);
                       (result, n') =
                         updatePlaybook nw client (P (the connectorIdNum) cron) (net w3);
                       w4 = w3\<lparr>net := n'\<rparr>
                   in if success result then
                        (Returned (),
                         say (Log_Playbook (data result))
                           (say Log_UpdatedDetails (say Log_Updated w4)))
                      else
                        (Exited 1,
                         say (Err_UpdateFailed (map_option message (error result))) w4))))"
    by (simp only: handleUpdate_def P_def Let_def)
  obtain out w1 where e: "ensureClient None w = (out, w1)"
    by (cases "ensureClient None w")
  have out: "out = (if truthy (fst (getApiKey w)) then Returned client else Exited 1)"
    and w1: "net w1 = net w" "configFile w1 = configFile w"
    using ensureClient_None [of w] e by (simp_all add: client_def)
  have Peq: "P n (flag_or ''--cron='' args
                    (case defaultCronString settings of
                       None \<Rightarrow> ''0 13 * * *''
                     | Some x \<Rightarrow> if x \<noteq> [] then x else ''0 13 * * *''))
             = spec_update_payload rt args settings"
    if "resolved_connector rt args settings = Some n" and "truthy (argValue ''--id='' args)" for n
    using that
    by (cases "argValue ''--emails='' args")
      (simp_all add: P_def spec_update_payload_def flag_or_truthy status_flag)
  have sent: "if truthy (fst (getApiKey w)) \<and> truthy (argValue ''--id='' args) \<and>
          truthy_num (resolved_connector rt args settings)
       then sent (net (snd (handleUpdate rt nw None args w))) =
              sent (net w) @ [update_request client (spec_update_payload rt args settings)]
       else net (snd (handleUpdate rt nw None args w)) = net w \<and>
            fst (handleUpdate rt nw None args w) = Exited 1"
  proof (cases "truthy (fst (getApiKey w)) \<and> truthy (argValue ''--id='' args) \<and>
          truthy_num (resolved_connector rt args settings)")
    case False
    then show ?thesis
      using e out w1
      by (auto simp: body say_frame resolved_connector_def settings_def case_prod_beta
            getDefaultConnectorId_frame getDefaultConnectorId_value split: if_splits)
  next
    case True
    then obtain n where n: "resolved_connector rt args settings = Some n"
      by (cases "resolved_connector rt args settings") simp_all
    have "sent (net (snd (handleUpdate rt nw None args w))) =
            sent (net w) @ [update_request client (P n (flag_or ''--cron='' args
                    (case defaultCronString settings of
                       None \<Rightarrow> ''0 13 * * *''
                     | Some x \<Rightarrow> if x \<noteq> [] then x else ''0 13 * * *'')))]"
      using True n e out w1
      by (auto simp: body say_frame resolved_connector_def settings_def flag_or_truthy
            case_prod_beta Let_def updatePlaybook_sent
            getDefaultConnectorId_frame getDefaultConnectorId_value
            getDefaultCronString_frame getDefaultCronString_value
            split: if_splits)
    with True Peq [OF n] show ?thesis by simp
  qed
  have cron: "\<not> truthy (argValue ''--cron='' args) \<Longrightarrow>
      defaultCronString settings = Some ''0 9 * * *'' \<Longrightarrow>
      cronString (spec_update_payload rt args settings) = ''0 9 * * *''"
    by (simp add: spec_update_payload_def flag_or_truthy)
  from cron sent show ?thesis
    by (simp add: Let_def loadConfig_value settings_def client_def)
qed


theorem handleUpdate_payload_witness:
  "sent (net (snd (handleUpdate demo_runtime accepting_network None
       [''--id=pb-1'', ''--connector=213'', ''--status=STATUS_INACTIVE''] cron_only_world))) =
     [update_request
        (new_TextQLClient \<lparr>cfg_apiKey = ''env-key'', cfg_baseUrl = Some ''https://app.textql.com''\<rparr>)
        \<lparr>prompt = ''SELECT 1;'', name = ''Updated Playbook'', playbookId = ''pb-1'',
         emailAddresses = [''admin@example.com''], status = STATUS_INACTIVE,
         paradigmType = TYPE_SQL, paradigmOptions = \<lparr>connectorId = Num 213\<rparr>,
         triggerType = TRIGGER_TYPE_CRON, cronString = ''0 9 * * *''\<rparr>] \<and>
   fst (handleUpdate demo_runtime accepting_network None [''--id=''] cron_only_world) =
     Exited 1 \<and>
   map body (sent (net (snd (handleUpdate overflow_runtime accepting_network None
       [''--id=pb-1'', ''--connector=99999999999999999999''] cron_only_world)))) =
     [Some (UpdateBody
        \<lparr>prompt = ''SELECT 1;'', name = ''Updated Playbook'', playbookId = ''pb-1'',
         emailAddresses = [''admin@example.com''], status = STATUS_ACTIVE,
         paradigmType = TYPE_SQL, paradigmOptions = \<lparr>connectorId = None\<rparr>,
         triggerType = TRIGGER_TYPE_CRON, cronString = ''0 9 * * *''\<rparr>)]"
  using handleUpdate_payload [where w = cron_only_world and rt = demo_runtime
      and nw = accepting_network
      and args = "[''--id=pb-1'', ''--connector=213'', ''--status=STATUS_INACTIVE'']"]
    handleUpdate_payload [where w = cron_only_world and rt = demo_runtime
      and nw = accepting_network and args = "[''--id='']"]
    handleUpdate_payload [where w = cron_only_world and rt = overflow_runtime
      and nw = accepting_network
      and args = "[''--id=pb-1'', ''--connector=99999999999999999999'']"]
  by (simp add: Let_def config_defs world_defs resolved_connector_def spec_update_payload_def
        flag_or_def argValue_def nth_opt_def demo_runtime_def overflow_runtime_def
        ascii_parseInt_def isWhiteSpace_def digit_value_def update_request_def
        wire_request_def)

text \<open>
  C6 as stated fails: an \<^verbatim>\<open>update\<close> invocation with an \<^verbatim>\<open>--id\<close> flag, an API key in
  the environment and the persisted settings \<^verbatim>\<open>{defaultCronString: "0 9 * * *"}\<close>, but
  no \<^verbatim>\<open>--connector\<close> flag and no persisted connector, submits no payload: the connector
  has no hardcoded default, and the process exits with status 1.
\<close>

theorem update_without_connector_counterexample:
  "fst (handleUpdate demo_runtime accepting_network None [''--id=pb-1''] cron_only_world) =
     Exited 1 \<and>
   sent (net (snd (handleUpdate demo_runtime accepting_network None [''--id=pb-1'']
                     cron_only_world))) = []"
  by (simp add: handleUpdate_def ensureClient_def initializeClient_def Let_def config_defs
        world_defs argValue_def nth_opt_def)

lemma zero_connector_create:
  assumes key: "truthy (fst (getApiKey w))"
    and flags: "truthy (argValue ''--id='' args)" "truthy (argValue ''--prompt='' args)"
      "truthy (argValue ''--name='' args)" "argValue ''--emails='' args \<noteq> None"
    and zero: "resolved_connector rt args (fst (loadConfig w)) = Some (Num 0)"
  shows "fst (handleCreate rt nw None args w) = Exited 1 \<and>
         net (snd (handleCreate rt nw None args w)) = net w \<and>
         last (console (snd (handleCreate rt nw None args w))) = Err_NoConnectorId"
proof -
  obtain out w1 where e: "ensureClient None w = (out, w1)"
    by (cases "ensureClient None w")
  obtain client where out: "out = Returned client"
    and w1: "net w1 = net w" "configFile w1 = configFile w"
    using ensureClient_None [of w] e key by simp
  show ?thesis
  proof (cases "truthy (argValue ''--connector='' args)")
    case True
    with zero have "parseInt rt (the (argValue ''--connector='' args)) 0 = Num 0"
      by (simp add: resolved_connector_def)
    with True flags e out w1 show ?thesis
      by (simp add: handleCreate_def Let_def say_frame)
  next
    case False
    with zero have "defaultConnectorId (settings_of (configFile w)) = Some (Num 0)"
      by (simp add: resolved_connector_def loadConfig_value)
    with False flags e out w1 show ?thesis
      by (simp add: handleCreate_def Let_def case_prod_beta say_frame
            getDefaultConnectorId_frame getDefaultConnectorId_value)
  qed
qed

lemma zero_connector_update:
  assumes key: "truthy (fst (getApiKey w))"
    and flags: "truthy (argValue ''--id='' args)"
    and zero: "resolved_connector rt args (fst (loadConfig w)) = Some (Num 0)"
  shows "fst (handleUpdate rt nw None args w) = Exited 1 \<and>
         net (snd (handleUpdate rt nw None args w)) = net w \<and>
         last (console (snd (handleUpdate rt nw None args w))) = Err_NoConnectorId"
proof -
  obtain out w1 where e: "ensureClient None w = (out, w1)"
    by (cases "ensureClient None w")
  obtain client where out: "out = Returned client"
    and w1: "net w1 = net w" "configFile w1 = configFile w"
    using ensureClient_None [of w] e key by simp
  show ?thesis
  proof (cases "truthy (argValue ''--connector='' args)")
    case True
    with zero have "parseInt rt (the (argValue ''--connector='' args)) 0 = Num 0"
      by (simp add: resolved_connector_def)
    with True flags e out w1 show ?thesis
      by (simp add: handleUpdate_def Let_def say_frame)
  next
    case False
    with zero have "defaultConnectorId (settings_of (configFile w)) = Some (Num 0)"
      by (simp add: resolved_connector_def loadConfig_value)
    with False flags e out w1 show ?thesis
      by (simp add: handleUpdate_def Let_def case_prod_beta say_frame
            getDefaultConnectorId_frame getDefaultConnectorId_value)
  qed
qed

text \<open>
  C10. A persisted \<open>defaultConnectorId\<close> of 0 is treated as absent:
  \<^verbatim>\<open>getDefaultConnectorId\<close> returns \<^verbatim>\<open>null\<close> for it. A \<^verbatim>\<open>create\<close> or \<^verbatim>\<open>update\<close>
  invocation that gets as far as resolving the connector id (an API key is available
  and the required flags are given) and resolves it to 0, from the \<^verbatim>\<open>--connector\<close> flag
  or from the persisted default, ends with exit status 1 after printing the
  missing-connector error, and sends nothing.
\<close>

theorem zero_connector_rejected:
  "(\<forall>c. configFile w = Stored c \<and> defaultConnectorId c = Some (Num 0) \<longrightarrow>
        fst (getDefaultConnectorId w) = None) \<and>
   (truthy (fst (getApiKey w)) \<and> truthy (argValue ''--id='' args) \<and>
    truthy (argValue ''--prompt='' args) \<and> truthy (argValue ''--name='' args) \<and>
    argValue ''--emails='' args \<noteq> None \<and>
    resolved_connector rt args (fst (loadConfig w)) = Some (Num 0) \<longrightarrow>
      fst (handleCreate rt nw None args w) = Exited 1 \<and>
      net (snd (handleCreate rt nw None args w)) = net w \<and>
      last (console (snd (handleCreate rt nw None args w))) = Err_NoConnectorId) \<and>
   (truthy (fst (getApiKey w)) \<and> truthy (argValue ''--id='' args) \<and>
    resolved_connector rt args (fst (loadConfig w)) = Some (Num 0) \<longrightarrow>
      fst (handleUpdate rt nw None args w) = Exited 1 \<and>
      net (snd (handleUpdate rt nw None args w)) = net w \<and>
      last (console (snd (handleUpdate rt nw None args w))) = Err_NoConnectorId)"
proof -
  have "\<forall>c. configFile w = Stored c \<and> defaultConnectorId c = Some (Num 0) \<longrightarrow>
        fst (getDefaultConnectorId w) = None"
    by (simp add: getDefaultConnectorId_value settings_of_def)
  then show ?thesis
    using zero_connector_create [of w args rt nw] zero_connector_update [of w args rt nw]
    by blast
qed


theorem zero_connector_rejected_witness:
  "fst (getDefaultConnectorId zero_default_world) = None \<and>
   fst (handleCreate demo_runtime accepting_network None
          [''--id=pb-1'', ''--prompt=SELECT 1;'', ''--name=Report'', ''--emails=a@example.com'']
          zero_default_world) = Exited 1 \<and>
   fst (handleUpdate demo_runtime accepting_network None [''--id=pb-1'', ''--connector=0'']
          demo_world) = Exited 1 \<and>
   net (snd (handleUpdate demo_runtime accepting_network None [''--id=pb-1'', ''--connector=0'']
               demo_world)) = fresh_net"
  using zero_connector_rejected [where w = zero_default_world and rt = demo_runtime
      and nw = accepting_network
      and args = "[''--id=pb-1'', ''--prompt=SELECT 1;'', ''--name=Report'',
                   ''--emails=a@example.com'']"]
    zero_connector_rejected [where w = demo_world and rt = demo_runtime
      and nw = accepting_network and args = "[''--id=pb-1'', ''--connector=0'']"]
  by (simp add: Let_def config_defs world_defs resolved_connector_def
        argValue_def nth_opt_def demo_runtime_def ascii_parseInt_def isWhiteSpace_def
        digit_value_def)

end
